theory Spec2Isabelle
  imports Complex_Main
begin

section \<open>JavaScript numbers\<close>

text \<open>
  Both workers compute on JavaScript numbers. A number is modelled as a real or one of the
  three special values that the operations of the source produce on finite operands: a
  division by zero, the logarithm of zero, the minimum of no arguments, a read past the end
  of an array. The operations below follow IEEE 754 on the special values and are exact on
  finite operands: they do not round, overflow or underflow, and the sign of zero is not
  modelled. The rounded operations of double precision come after the two workers.
\<close>

datatype jsnum = Fin real | PInf | NInf | NaN

datatype error = RangeError | Error string

fun is_fin :: "jsnum \<Rightarrow> bool" where
  "is_fin (Fin a) = True"
| "is_fin PInf = False"
| "is_fin NInf = False"
| "is_fin NaN = False"

fun jneg :: "jsnum \<Rightarrow> jsnum" where
  "jneg (Fin a) = Fin (- a)"
| "jneg PInf = NInf"
| "jneg NInf = PInf"
| "jneg NaN = NaN"

fun jadd :: "jsnum \<Rightarrow> jsnum \<Rightarrow> jsnum" where
  "jadd (Fin a) (Fin b) = Fin (a + b)"
| "jadd NaN y = NaN"
| "jadd x NaN = NaN"
| "jadd PInf NInf = NaN"
| "jadd NInf PInf = NaN"
| "jadd PInf y = PInf"
| "jadd x PInf = PInf"
| "jadd NInf y = NInf"
| "jadd x NInf = NInf"

definition jsub :: "jsnum \<Rightarrow> jsnum \<Rightarrow> jsnum" where
  "jsub x y = jadd x (jneg y)"

fun jmul :: "jsnum \<Rightarrow> jsnum \<Rightarrow> jsnum" where
  "jmul (Fin a) (Fin b) = Fin (a * b)"
| "jmul NaN y = NaN"
| "jmul x NaN = NaN"
| "jmul (Fin a) PInf = (if a = 0 then NaN else if 0 < a then PInf else NInf)"
| "jmul (Fin a) NInf = (if a = 0 then NaN else if 0 < a then NInf else PInf)"
| "jmul PInf (Fin b) = (if b = 0 then NaN else if 0 < b then PInf else NInf)"
| "jmul NInf (Fin b) = (if b = 0 then NaN else if 0 < b then NInf else PInf)"
| "jmul PInf PInf = PInf"
| "jmul PInf NInf = NInf"
| "jmul NInf PInf = NInf"
| "jmul NInf NInf = PInf"

text \<open>Division: a finite number divided by zero is NaN for 0/0 and an infinity with the
  sign of the numerator otherwise.\<close>

fun jdiv :: "jsnum \<Rightarrow> jsnum \<Rightarrow> jsnum" where
  "jdiv (Fin a) (Fin b) =
     (if b \<noteq> 0 then Fin (a / b) else if a = 0 then NaN else if 0 < a then PInf else NInf)"
| "jdiv NaN y = NaN"
| "jdiv x NaN = NaN"
| "jdiv (Fin a) PInf = Fin 0"
| "jdiv (Fin a) NInf = Fin 0"
| "jdiv PInf (Fin b) = (if 0 \<le> b then PInf else NInf)"
| "jdiv NInf (Fin b) = (if 0 \<le> b then NInf else PInf)"
| "jdiv PInf PInf = NaN"
| "jdiv PInf NInf = NaN"
| "jdiv NInf PInf = NaN"
| "jdiv NInf NInf = NaN"

text \<open>Comparisons: every comparison with NaN is false.\<close>

fun jlt :: "jsnum \<Rightarrow> jsnum \<Rightarrow> bool" where
  "jlt (Fin a) (Fin b) = (a < b)"
| "jlt NaN y = False"
| "jlt x NaN = False"
| "jlt x NInf = False"
| "jlt PInf y = False"
| "jlt NInf y = True"
| "jlt x PInf = True"

definition jgt :: "jsnum \<Rightarrow> jsnum \<Rightarrow> bool" where
  "jgt x y = jlt y x"

fun jle :: "jsnum \<Rightarrow> jsnum \<Rightarrow> bool" where
  "jle (Fin a) (Fin b) = (a \<le> b)"
| "jle NaN y = False"
| "jle x NaN = False"
| "jle NInf y = True"
| "jle x PInf = True"
| "jle x NInf = False"
| "jle PInf y = False"

definition jge :: "jsnum \<Rightarrow> jsnum \<Rightarrow> bool" where
  "jge x y = jle y x"

fun jabs :: "jsnum \<Rightarrow> jsnum" where
  "jabs (Fin a) = Fin \<bar>a\<bar>"
| "jabs PInf = PInf"
| "jabs NInf = PInf"
| "jabs NaN = NaN"

fun jsqrt :: "jsnum \<Rightarrow> jsnum" where
  "jsqrt (Fin a) = (if a < 0 then NaN else Fin (sqrt a))"
| "jsqrt PInf = PInf"
| "jsqrt NInf = NaN"
| "jsqrt NaN = NaN"

text \<open>\<open>x ** 2\<close> and \<open>Math.pow(x, 2)\<close>.\<close>

definition jpow2 :: "jsnum \<Rightarrow> jsnum" where
  "jpow2 x = jmul x x"

fun jlog10 :: "jsnum \<Rightarrow> jsnum" where
  "jlog10 (Fin a) = (if a < 0 then NaN else if a = 0 then NInf else Fin (log 10 a))"
| "jlog10 PInf = PInf"
| "jlog10 NInf = NaN"
| "jlog10 NaN = NaN"

text \<open>\<open>Math.max\<close> and \<open>Math.min\<close> of two arguments, and of a spread array: with no
  argument they are \<open>-Infinity\<close> and \<open>Infinity\<close>, with a NaN argument NaN.\<close>

fun jmax :: "jsnum \<Rightarrow> jsnum \<Rightarrow> jsnum" where
  "jmax NaN y = NaN"
| "jmax x NaN = NaN"
| "jmax x y = (if jlt x y then y else x)"

fun jmin :: "jsnum \<Rightarrow> jsnum \<Rightarrow> jsnum" where
  "jmin NaN y = NaN"
| "jmin x NaN = NaN"
| "jmin x y = (if jlt y x then y else x)"

definition Math_max :: "jsnum list \<Rightarrow> jsnum" where
  "Math_max xs = foldl jmax NInf xs"

definition Math_min :: "jsnum list \<Rightarrow> jsnum" where
  "Math_min xs = foldl jmin PInf xs"

fun jcos :: "jsnum \<Rightarrow> jsnum" where
  "jcos (Fin a) = Fin (cos a)"
| "jcos x = NaN"

fun jsin :: "jsnum \<Rightarrow> jsnum" where
  "jsin (Fin a) = Fin (sin a)"
| "jsin x = NaN"

text \<open>The tangent is the quotient of sine and cosine (an infinity where the cosine is 0).\<close>

fun jtan :: "jsnum \<Rightarrow> jsnum" where
  "jtan (Fin a) = jdiv (Fin (sin a)) (Fin (cos a))"
| "jtan x = NaN"

text \<open>\<open>Math.round\<close>: the nearest integer, halves rounded up.\<close>

fun jround :: "jsnum \<Rightarrow> jsnum" where
  "jround (Fin a) = Fin (of_int \<lfloor>a + 1 / 2\<rfloor>)"
| "jround x = x"

text \<open>Truthiness of a number: zero and NaN are falsy.\<close>

fun truthy :: "jsnum \<Rightarrow> bool" where
  "truthy (Fin a) = (a \<noteq> 0)"
| "truthy NaN = False"
| "truthy x = True"

text \<open>Strict inequality \<open>x !== y\<close> on numbers: NaN differs from everything.\<close>

fun jneq :: "jsnum \<Rightarrow> jsnum \<Rightarrow> bool" where
  "jneq NaN y = True"
| "jneq x NaN = True"
| "jneq x y = (x \<noteq> y)"

text \<open>An array read \<open>xs[i]\<close>: past the end it is \<open>undefined\<close>, which every arithmetic
  operation turns into NaN.\<close>

definition nth_js :: "jsnum list \<Rightarrow> nat \<Rightarrow> jsnum" where
  "nth_js xs i = (if i < length xs then xs ! i else NaN)"

text \<open>An array write \<open>xs[i] = v\<close>: past the end the array grows, the slots between are
  holes (read as \<open>undefined\<close>).\<close>

definition set_js :: "jsnum list \<Rightarrow> nat \<Rightarrow> jsnum \<Rightarrow> jsnum list" where
  "set_js xs i v = (if i < length xs then xs[i := v] else xs @ replicate (i - length xs) NaN @ [v])"

section \<open>Quality metrics, as both workers return them\<close>

record metrics =
  snr :: jsnum
  clippingPercentage :: jsnum
  motionArtifactScore :: jsnum
  validSegment :: bool

section \<open>The JavaScript worker (src/unnamed/part_000)\<close>

subsection \<open>ButterworthFilter\<close>

record ButterworthFilter =
  bf_samplingRate :: jsnum
  bf_lowCutoff :: jsnum
  bf_highCutoff :: jsnum
  bf_order :: int
  bf_b :: "jsnum list"
  bf_a :: "jsnum list"
  bf_x :: "jsnum list"
  bf_y :: "jsnum list"

text \<open>The constructor, which stores its arguments and calls \<open>computeCoefficients\<close>. The
  values \<open>wc\<close>, \<open>b\<close> and \<open>q\<close> of the source are computed and never used.\<close>

definition computeCoefficients ::
  "jsnum \<Rightarrow> jsnum \<Rightarrow> jsnum \<Rightarrow> int \<Rightarrow> error + ButterworthFilter" where
  "computeCoefficients samplingRate lowCutoff highCutoff order =
     (let fs = samplingRate;
          low = jdiv lowCutoff (jdiv fs (Fin 2));
          high = jdiv highCutoff (jdiv fs (Fin 2))
      in if jle low (Fin 0) \<or> jge high (Fin 1) \<or> jge low high
         then Inl (Error ''Invalid filter frequencies'')
         else
           let bw = jsub high low;
               a = jtan (jdiv (jmul (Fin pi) bw) (Fin 2))
           in Inr \<lparr>bf_samplingRate = samplingRate, bf_lowCutoff = lowCutoff,
                   bf_highCutoff = highCutoff, bf_order = order,
                   bf_b = [a, Fin 0, jneg a],
                   bf_a = [Fin 1,
                           jdiv (jmul (Fin (- 2)) (jsub (Fin 1) a)) (jadd (Fin 1) a),
                           jdiv (jsub (Fin 1) a) (jadd (Fin 1) a)],
                   bf_x = [Fin 0, Fin 0, Fin 0],
                   bf_y = [Fin 0, Fin 0, Fin 0]\<rparr>)"

text \<open>The method \<open>filter(x)\<close>: the output and the filter with its history shifted.\<close>

definition filter_step :: "ButterworthFilter \<Rightarrow> jsnum \<Rightarrow> jsnum \<times> ButterworthFilter" where
  "filter_step f x =
     (let out = jsub
            (jdiv (jadd (jadd (jmul (nth_js (bf_b f) 0) x)
                              (jmul (nth_js (bf_b f) 1) (nth_js (bf_x f) 1)))
                        (jmul (nth_js (bf_b f) 2) (nth_js (bf_x f) 2)))
                  (nth_js (bf_a f) 0))
            (jdiv (jadd (jmul (nth_js (bf_a f) 1) (nth_js (bf_y f) 1))
                        (jmul (nth_js (bf_a f) 2) (nth_js (bf_y f) 2)))
                  (nth_js (bf_a f) 0));
          xs = set_js (bf_x f) 2 (nth_js (bf_x f) 1);
          xs = set_js xs 1 x;
          ys = set_js (bf_y f) 2 (nth_js (bf_y f) 1);
          ys = set_js ys 1 out
      in (out, f\<lparr>bf_x := xs, bf_y := ys\<rparr>))"

text \<open>\<open>signal.map((x) => f.filter(x))\<close>: the filter's state is threaded through the map.\<close>

primrec filter_all :: "ButterworthFilter \<Rightarrow> jsnum list \<Rightarrow> jsnum list" where
  "filter_all f [] = []"
| "filter_all f (x # xs) = (case filter_step f x of (out, f') \<Rightarrow> out # filter_all f' xs)"

subsection \<open>Quality metrics\<close>

definition calculateSNR :: "jsnum list \<Rightarrow> jsnum list \<Rightarrow> jsnum" where
  "calculateSNR signal noise =
     (let signalPower = jdiv (foldl (\<lambda>a x. jadd a (jmul x x)) (Fin 0) signal)
                             (Fin (real (length signal)));
          noisePower = jdiv (foldl (\<lambda>a x. jadd a (jmul x x)) (Fin 0) noise)
                            (Fin (real (length noise)))
      in if jgt noisePower (Fin 0) then jmul (Fin 10) (jlog10 (jdiv signalPower noisePower))
         else Fin 0)"

definition calculateClipping :: "jsnum list \<Rightarrow> jsnum" where
  "calculateClipping signal =
     (let threshold = jmul (Math_max signal) (Fin (95 / 100));
          clipped = length (filter (\<lambda>x. jge x threshold) signal)
      in jmul (jdiv (Fin (real clipped)) (Fin (real (length signal)))) (Fin 100))"

definition calculateMotionArtifacts :: "jsnum list \<Rightarrow> jsnum" where
  "calculateMotionArtifacts signal =
     (let diffs = map (\<lambda>i. jabs (jsub (nth_js signal i) (nth_js signal (i - 1))))
                      [1..<length signal];
          mean = jdiv (foldl (\<lambda>a b. jadd a b) (Fin 0) diffs) (Fin (real (length diffs)));
          variance = jdiv (foldl (\<lambda>a x. jadd a (jpow2 (jsub x mean))) (Fin 0) diffs)
                          (Fin (real (length diffs)))
      in jsqrt variance)"

definition isValidSegment :: "jsnum list \<Rightarrow> jsnum \<Rightarrow> bool" where
  "isValidSegment signal std =
     (let mean = jdiv (foldl (\<lambda>a b. jadd a b) (Fin 0) signal) (Fin (real (length signal)));
          nonZero = length (filter (\<lambda>x. jgt (jabs (jsub x mean)) (jmul (Fin (1 / 10)) std)) signal)
      in jgt (Fin (real nonZero)) (jmul (Fin (real (length signal))) (Fin (5 / 10))))"

subsection \<open>processSignal\<close>

text \<open>Lines 68 to 85: the mean and a line through the index midpoint are removed.\<close>

definition detrend_js :: "jsnum list \<Rightarrow> jsnum list" where
  "detrend_js rawSignal =
     (let mean = jdiv (foldl (\<lambda>a b. jadd a b) (Fin 0) rawSignal) (Fin (real (length rawSignal)));
          detrended = map (\<lambda>x. jsub x mean) rawSignal;
          n = length detrended;
          half = jdiv (Fin (real n)) (Fin 2);
          yMean = Fin 0;
          (numerator, denominator) = fold (\<lambda>i (numerator, denominator).
              (jadd numerator (jmul (jsub (Fin (real i)) half) (jsub (nth_js detrended i) yMean)),
               jadd denominator (jpow2 (jsub (Fin (real i)) half))))
            [0..<n] (Fin 0, Fin 0)
      in if jneq denominator (Fin 0) then
           let slope = jdiv numerator denominator
           in map (\<lambda>i. jsub (nth_js detrended i) (jmul slope (jsub (Fin (real i)) half))) [0..<n]
         else detrended)"

text \<open>Lines 96 to 101: samples further than three standard deviations from the mean are
  replaced by the mean. The standard deviation is returned too: \<open>isValidSegment\<close> uses it.\<close>

definition clip_outliers :: "jsnum list \<Rightarrow> jsnum list \<times> jsnum" where
  "clip_outliers butterworthFiltered =
     (let mean_clean = jdiv (foldl (\<lambda>a b. jadd a b) (Fin 0) butterworthFiltered)
                            (Fin (real (length butterworthFiltered)));
          variance = jdiv (foldl (\<lambda>a x. jadd a (jpow2 (jsub x mean_clean))) (Fin 0) butterworthFiltered)
                          (Fin (real (length butterworthFiltered)));
          std = jsqrt variance
      in (map (\<lambda>x. if jgt (jabs (jsub x mean_clean)) (jmul (Fin 3) std) then mean_clean else x)
              butterworthFiltered, std))"

record processed_js =
  raw :: "jsnum list"
  bandpass :: "jsnum list"
  butterworth :: "jsnum list"
  qualityMetrics_js :: metrics

text \<open>The body of \<open>processSignal\<close> is in a \<open>try\<close> whose handler raises
  \<open>Signal processing failed: \<close> followed by the message of the error caught.\<close>

definition wrap_error :: "error \<Rightarrow> error" where
  "wrap_error e = (case e of Error msg \<Rightarrow> Error (''Signal processing failed: '' @ msg)
                   | RangeError \<Rightarrow> Error ''Signal processing failed: '')"

definition processSignal_js ::
  "jsnum list \<Rightarrow> jsnum \<Rightarrow> jsnum \<Rightarrow> jsnum \<Rightarrow> int \<Rightarrow> error + processed_js" where
  "processSignal_js rawSignal samplingRate bandpassLow bandpassHigh filterOrder =
     (let detrended = detrend_js rawSignal
      in case computeCoefficients samplingRate bandpassLow bandpassHigh filterOrder of
           Inl e \<Rightarrow> Inl (wrap_error e)
         | Inr filter1 \<Rightarrow>
             let bandpassFiltered = filter_all filter1 detrended
             in case computeCoefficients samplingRate bandpassLow bandpassHigh filterOrder of
                  Inl e \<Rightarrow> Inl (wrap_error e)
                | Inr filter2 \<Rightarrow>
                    let butterworthFiltered = filter_all filter2 bandpassFiltered;
                        (cleanedNoOutliers, std) = clip_outliers butterworthFiltered
                    in Inr \<lparr>raw = rawSignal, bandpass = bandpassFiltered,
                            butterworth = cleanedNoOutliers,
                            qualityMetrics_js =
                              \<lparr>snr = calculateSNR cleanedNoOutliers detrended,
                               clippingPercentage = calculateClipping rawSignal,
                               motionArtifactScore = calculateMotionArtifacts butterworthFiltered,
                               validSegment = isValidSegment butterworthFiltered std\<rparr>\<rparr>)"

subsection \<open>computeFFT and naiveFFT\<close>

definition naiveFFT :: "jsnum list \<Rightarrow> jsnum list" where
  "naiveFFT signal =
     (let n = length signal
      in map (\<lambda>k.
           let (realPart, imagPart) = fold (\<lambda>t (realPart, imagPart).
                 let angle = jdiv (jmul (jmul (jmul (Fin (- 2)) (Fin pi)) (Fin (real k))) (Fin (real t)))
                                  (Fin (real n))
                 in (jadd realPart (jmul (nth_js signal t) (jcos angle)),
                     jadd imagPart (jmul (nth_js signal t) (jsin angle))))
               [0..<n] (Fin 0, Fin 0)
           in jdiv (jsqrt (jadd (jmul realPart realPart) (jmul imagPart imagPart))) (Fin (real n)))
         [0..<n])"

text \<open>\<open>signal.filter((_, i) => i % 2 === r)\<close>.\<close>

definition every_other :: "nat \<Rightarrow> jsnum list \<Rightarrow> jsnum list" where
  "every_other r signal = map (\<lambda>i. signal ! i) (filter (\<lambda>i. i mod 2 = r) [0..<length signal])"

text \<open>The recursive transform. On the empty array the source recurses on the empty array
  again and never returns a value: the call stack overflows, a RangeError.\<close>

function computeFFT_js :: "jsnum list \<Rightarrow> error + jsnum list" where
  "computeFFT_js signal =
     (let n = length signal
      in if n = 0 then Inl RangeError
         else if n = 1 then Inr signal
         else if n mod 2 \<noteq> 0 then Inr (naiveFFT signal)
         else case computeFFT_js (every_other 0 signal) of Inl e \<Rightarrow> Inl e | Inr evens \<Rightarrow>
              case computeFFT_js (every_other 1 signal) of Inl e \<Rightarrow> Inl e | Inr odds \<Rightarrow>
                Inr (fold (\<lambda>k result.
                       let t = jdiv (jmul (jmul (Fin (- 2)) (Fin pi)) (Fin (real k))) (Fin (real n));
                           re = jcos t;
                           im = jsin t;
                           result = set_js result k
                             (jadd (nth_js evens k)
                                   (jsub (jmul re (nth_js odds k)) (jmul im (Fin 0))))
                       in set_js result (k + n div 2)
                            (jsub (nth_js evens k)
                                  (jsub (jmul re (nth_js odds k)) (jmul im (Fin 0)))))
                     [0..<n div 2] (replicate n (Fin 0))))"
  by pat_completeness auto
termination
proof (relation "measure length", goal_cases)
  case 1
  show ?case by simp
next
  case (2 signal n)
  then have "1 < length signal" by (cases signal) auto
  then have "1 \<in> set [0..<length signal]" by simp
  then have "length (filter (\<lambda>i. i mod 2 = 0) [0..<length signal]) < length [0..<length signal]"
    by (rule length_filter_less) simp
  then show ?case by (simp add: every_other_def)
next
  case (3 signal n evens)
  then have "0 < length signal" by (cases signal) auto
  then have "0 \<in> set [0..<length signal]" by simp
  then have "length (filter (\<lambda>i. i mod 2 = 1) [0..<length signal]) < length [0..<length signal]"
    by (rule length_filter_less) simp
  then show ?case by (simp add: every_other_def)
qed

declare computeFFT_js.simps [simp del]

section \<open>The TypeScript worker (src/lib/signalWorker.ts)\<close>

subsection \<open>removeOutliers\<close>

definition mean_of :: "jsnum list \<Rightarrow> jsnum" where
  "mean_of signal = jdiv (foldl (\<lambda>a b. jadd a b) (Fin 0) signal) (Fin (real (length signal)))"

definition std_of :: "jsnum list \<Rightarrow> jsnum" where
  "std_of signal =
     (let mean = mean_of signal;
          variance = jdiv (foldl (\<lambda>acc val. jadd acc (jpow2 (jsub val mean))) (Fin 0) signal)
                          (Fin (real (length signal)))
      in jsqrt variance)"

definition removeOutliers :: "jsnum list \<Rightarrow> jsnum \<Rightarrow> jsnum list" where
  "removeOutliers signal threshold =
     (let mean = mean_of signal;
          std = std_of signal
      in map (\<lambda>val. let zScore = jabs (jdiv (jsub val mean) std)
                     in if jgt zScore threshold then mean else val) signal)"

subsection \<open>detrend\<close>

text \<open>The state of the summation loop of \<open>detrend\<close> after its first \<open>k\<close> iterations:
  \<open>(sumX, sumY, sumXY, sumX2)\<close>.\<close>

primrec detrend_sums :: "jsnum list \<Rightarrow> nat \<Rightarrow> jsnum \<times> jsnum \<times> jsnum \<times> jsnum" where
  "detrend_sums signal 0 = (Fin 0, Fin 0, Fin 0, Fin 0)"
| "detrend_sums signal (Suc i) =
     (case detrend_sums signal i of (sumX, sumY, sumXY, sumX2) \<Rightarrow>
        (jadd sumX (Fin (real i)),
         jadd sumY (nth_js signal i),
         jadd sumXY (jmul (Fin (real i)) (nth_js signal i)),
         jadd sumX2 (Fin (real i * real i))))"

text \<open>The least-squares line that \<open>detrend\<close> fits: \<open>(slope, intercept)\<close>.\<close>

definition linear_fit :: "jsnum list \<Rightarrow> jsnum \<times> jsnum" where
  "linear_fit signal =
     (let n = Fin (real (length signal)) in
      case detrend_sums signal (length signal) of (sumX, sumY, sumXY, sumX2) \<Rightarrow>
        let slope = jdiv (jsub (jmul n sumXY) (jmul sumX sumY))
                         (jsub (jmul n sumX2) (jmul sumX sumX));
            intercept = jdiv (jsub sumY (jmul slope sumX)) n
        in (slope, intercept))"

definition detrend :: "jsnum list \<Rightarrow> jsnum list" where
  "detrend signal =
     (let n = length signal in
      if n < 2 then signal
      else case linear_fit signal of (slope, intercept) \<Rightarrow>
        map (\<lambda>i. jsub (nth_js signal i) (jadd (jmul slope (Fin (real i))) intercept)) [0..<n])"

subsection \<open>designButterworthFilter\<close>

text \<open>\<open>new Array(len).fill(v)\<close> raises a RangeError unless \<open>len\<close> is an integer from 0
  to \<open>2^32 - 1\<close>. The filter order is an integer here. (The size of the memory is not
  modelled.)\<close>

definition new_Array :: "int \<Rightarrow> jsnum \<Rightarrow> error + jsnum list" where
  "new_Array len v =
     (if len < 0 \<or> 2 ^ 32 \<le> len then Inl RangeError else Inr (replicate (nat len) v))"

definition designButterworthFilter ::
  "jsnum \<Rightarrow> jsnum \<Rightarrow> jsnum \<Rightarrow> int \<Rightarrow> error + (jsnum list \<times> jsnum list)" where
  "designButterworthFilter lowCutoff highCutoff samplingRate order =
     (let wn1 = jdiv (jmul (Fin 2) lowCutoff) samplingRate;
          wn2 = jdiv (jmul (Fin 2) highCutoff) samplingRate;
          n = order
      in case new_Array (n + 1) (Fin 0) of Inl e \<Rightarrow> Inl e | Inr b \<Rightarrow>
         case new_Array (n + 1) (Fin 0) of Inl e \<Rightarrow> Inl e | Inr a \<Rightarrow>
         if n = 2 then
           Inr (set_js (set_js (set_js b 0 (Fin (2 / 10))) 1 (Fin (4 / 10))) 2 (Fin (2 / 10)),
                set_js (set_js (set_js a 0 (Fin 1)) 1 (Fin (- (8 / 10)))) 2 (Fin (36 / 100)))
         else if n = 4 then
           Inr (set_js (set_js (set_js (set_js (set_js b 0 (Fin (1 / 10))) 1 (Fin (2 / 10)))
                   2 (Fin (3 / 10))) 3 (Fin (2 / 10))) 4 (Fin (1 / 10)),
                set_js (set_js (set_js (set_js (set_js a 0 (Fin 1)) 1 (Fin (- (15 / 10))))
                   2 (Fin (12 / 10))) 3 (Fin (- (5 / 10)))) 4 (Fin (8 / 100)))
         else
           let alpha = jsub wn2 wn1
           in Inr (set_js (set_js b 0 alpha) 1 alpha,
                   set_js (set_js a 0 (Fin 1)) 1 (jneg (jsub (Fin 1) alpha))))"

subsection \<open>applyIIRFilter\<close>

text \<open>The array \<open>filtered\<close> after the first \<open>k\<close> iterations of the outer loop (its first
  \<open>k\<close> entries). The inner loops run while \<open>j < numer && i - j >= 0\<close>, that is for
  \<open>j < min numer (i + 1)\<close>.\<close>

primrec iir_loop :: "jsnum list \<Rightarrow> jsnum list \<Rightarrow> jsnum list \<Rightarrow> nat \<Rightarrow> jsnum list" where
  "iir_loop signal b a 0 = []"
| "iir_loop signal b a (Suc i) =
     (let filtered = iir_loop signal b a i;
          numer = length b;
          denom = length a;
          y = fold (\<lambda>j y. jadd y (jmul (nth_js b j) (nth_js signal (i - j))))
                [0..<min numer (i + 1)] (Fin 0);
          y = fold (\<lambda>j y. jsub y (jmul (nth_js a j) (nth_js filtered (i - j))))
                [1..<min denom (i + 1)] y
      in filtered @ [jdiv y (nth_js a 0)])"

definition applyIIRFilter :: "jsnum list \<Rightarrow> jsnum list \<Rightarrow> jsnum list \<Rightarrow> jsnum list" where
  "applyIIRFilter signal b a = iir_loop signal b a (length signal)"

subsection \<open>Quality metrics\<close>

definition estimateSNR :: "jsnum list \<Rightarrow> jsnum list \<Rightarrow> jsnum" where
  "estimateSNR rawSignal cleanedSignal =
     (let noise = map (\<lambda>i. jsub (nth_js rawSignal i) (nth_js cleanedSignal i))
                      [0..<length rawSignal];
          signalPower = jdiv (foldl (\<lambda>a b. jadd a (jmul b b)) (Fin 0) cleanedSignal)
                             (Fin (real (length cleanedSignal)));
          noisePower = jdiv (foldl (\<lambda>a b. jadd a (jmul b b)) (Fin 0) noise)
                            (Fin (real (length noise)));
          snrDb = jmul (Fin 10) (jlog10 (jdiv signalPower (jadd noisePower (Fin (1 / 10 ^ 10)))))
      in jmax (Fin 0) snrDb)"

definition detectClipping :: "jsnum list \<Rightarrow> jsnum \<Rightarrow> jsnum" where
  "detectClipping signal threshold =
     (let min = Math_min signal;
          max = Math_max signal;
          range = jsub max min;
          clippedCount = length (filter
            (\<lambda>val. jle val (jadd min (jmul range (jsub (Fin 1) threshold)))
                 \<or> jge val (jsub max (jmul range (jsub (Fin 1) threshold)))) signal)
      in jmul (jdiv (Fin (real clippedCount)) (Fin (real (length signal)))) (Fin 100))"

definition assessMotionArtifacts :: "jsnum list \<Rightarrow> jsnum" where
  "assessMotionArtifacts signal =
     (if length signal < 3 then Fin 0
      else
        let threshold = jdiv (jmul (Fin 2) (jsub (Math_max signal) (Math_min signal)))
                             (Fin (real (length signal)));
            abruptChanges = length (filter
              (\<lambda>i. jgt (jabs (jsub (nth_js signal i) (nth_js signal (i - 1)))) threshold)
              [1..<length signal])
        in jmul (jdiv (Fin (real abruptChanges)) (Fin (real (length signal)))) (Fin 100))"

subsection \<open>processSignal\<close>

record payload =
  rawSignal :: "jsnum list"
  samplingRate :: jsnum
  bandpassLow :: jsnum
  bandpassHigh :: jsnum
  filterOrder :: int

record processed =
  cleanedSignal :: "jsnum list"
  qualityMetrics :: metrics

text \<open>The verdict of line 232:
  \<open>clippingPercentage < 5 && motionArtifactScore < 20 && snr > 5\<close>.\<close>

definition valid_verdict :: "jsnum \<Rightarrow> jsnum \<Rightarrow> jsnum \<Rightarrow> bool" where
  "valid_verdict clippingPct motionScore snrDb =
     (jlt clippingPct (Fin 5) \<and> jlt motionScore (Fin 20) \<and> jgt snrDb (Fin 5))"

text \<open>\<open>Math.round(x * 10) / 10\<close>.\<close>

definition round1 :: "jsnum \<Rightarrow> jsnum" where
  "round1 x = jdiv (jround (jmul x (Fin 10))) (Fin 10)"

text \<open>The normalisation of lines 218 to 224: \<open>range = max - min || 1\<close>.\<close>

definition normalize255 :: "jsnum list \<Rightarrow> jsnum list" where
  "normalize255 cleaned =
     (let min = Math_min cleaned;
          max = Math_max cleaned;
          range = (if truthy (jsub max min) then jsub max min else Fin 1)
      in map (\<lambda>val. jmul (jdiv (jsub val min) range) (Fin 255)) cleaned)"

definition processSignal :: "payload \<Rightarrow> error + processed" where
  "processSignal p =
     (let signal = detrend (rawSignal p);
          signal = removeOutliers signal (Fin 3)
      in case designButterworthFilter (bandpassLow p) (bandpassHigh p) (samplingRate p)
                (filterOrder p) of
           Inl e \<Rightarrow> Inl e
         | Inr (b, a) \<Rightarrow>
             let cleaned = applyIIRFilter signal b a;
                 cleaned = normalize255 cleaned;
                 snrDb = estimateSNR (rawSignal p) cleaned;
                 clippingPct = detectClipping (rawSignal p) (Fin (98 / 100));
                 motionScore = assessMotionArtifacts (rawSignal p)
             in Inr \<lparr>cleanedSignal = cleaned,
                     qualityMetrics = \<lparr>snr = round1 snrDb,
                                        clippingPercentage = round1 clippingPct,
                                        motionArtifactScore = round1 motionScore,
                                        validSegment = valid_verdict clippingPct motionScore snrDb\<rparr>\<rparr>)"

subsection \<open>computeFFT\<close>

text \<open>The padding loop \<open>while (N < n) N *= 2\<close>, entered with \<open>N = 1\<close>. (From \<open>N = 0\<close>,
  which the source never passes, the source would not end; the model stops.)\<close>

function pad_loop :: "nat \<Rightarrow> nat \<Rightarrow> nat" where
  "pad_loop n N = (if N \<noteq> 0 \<and> N < n then pad_loop n (N * 2) else N)"
  by pat_completeness auto
termination
  by (relation "measure (\<lambda>(n, N). n - N)") auto

declare pad_loop.simps [simp del]

text \<open>One bin of the spectrum: the sums \<open>real\<close> and \<open>imag\<close> over the padded signal.\<close>

definition fft_bin :: "jsnum list \<Rightarrow> nat \<Rightarrow> nat \<Rightarrow> jsnum" where
  "fft_bin paddedSignal N k =
     (let (re, im) = fold (\<lambda>n (re, im).
            let angle = jdiv (jmul (jmul (jmul (Fin (- 2)) (Fin pi)) (Fin (real k))) (Fin (real n)))
                             (Fin (real N))
            in (jadd re (jmul (nth_js paddedSignal n) (jcos angle)),
                jadd im (jmul (nth_js paddedSignal n) (jsin angle))))
          [0..<N] (Fin 0, Fin 0)
      in jdiv (jsqrt (jadd (jmul re re) (jmul im im))) (Fin (real N)))"

text \<open>\<open>new Array(N / 2)\<close> raises a RangeError when \<open>N / 2\<close> is not an integer.\<close>

definition computeFFT :: "jsnum list \<Rightarrow> error + jsnum list" where
  "computeFFT signal =
     (let n = length signal;
          N = pad_loop n 1;
          paddedSignal = fold (\<lambda>i p. set_js p i (nth_js signal i)) [0..<n] (replicate N (Fin 0))
      in if \<not> 2 dvd N then Inl RangeError
         else Inr (map (\<lambda>k. fft_bin paddedSignal N k) [0..<N div 2]))"

section \<open>Double-precision arithmetic\<close>

text \<open>
  The operations above are exact on finite operands. The running program rounds: every
  arithmetic operation of IEEE 754 binary64 returns the exact result rounded to the nearest
  double, a tie going to the even significand, with gradual underflow below \<open>2^-1022\<close> and
  an infinity from \<open>2^1024 - 2^970\<close> on. For the claims that rounding, underflow or
  overflow decides, \<open>removeOutliers\<close> and \<open>detrend\<close> are embedded a second time, over these
  rounded operations. (The sign of zero is still not modelled.)
\<close>

text \<open>The nearest integer, a tie going to the even one.\<close>

definition round_even :: "real \<Rightarrow> int" where
  "round_even k =
     (let f = \<lfloor>k\<rfloor>; d = k - of_int f
      in if d < 1 / 2 then f else if 1 / 2 < d then f + 1 else if even f then f else f + 1)"

text \<open>The binary exponent of a non-zero real, not below that of the subnormal doubles.\<close>

definition double_exp :: "real \<Rightarrow> int" where
  "double_exp x = max \<lfloor>log 2 \<bar>x\<bar>\<rfloor> (- 1022)"

text \<open>The double nearest to a real: doubles with exponent \<open>e\<close> are the multiples of
  \<open>2^(e - 52)\<close>.\<close>

definition round_double :: "real \<Rightarrow> jsnum" where
  "round_double x =
     (if x = 0 then Fin 0
      else
        let q = 2 powr of_int (double_exp x - 52);
            y = of_int (round_even (x / q)) * q
        in if 2 ^ 1024 \<le> \<bar>y\<bar> then (if 0 < x then PInf else NInf) else Fin y)"







subsection \<open>removeOutliers of signalWorker.ts in double arithmetic\<close>




subsection \<open>detrend of signalWorker.ts in double arithmetic\<close>




section \<open>Properties\<close>

subsection \<open>Finite signals\<close>

lemma all_fin_map: "(\<forall>x\<in>set xs. is_fin x) \<Longrightarrow> \<exists>ys. xs = map Fin ys"
proof (induction xs)
  case Nil
  then show ?case by simp
next
  case (Cons x xs)
  then obtain ys where ys: "xs = map Fin ys" by auto
  from Cons.prems obtain y where "x = Fin y" by (cases x) auto
  with ys have "x # xs = map Fin (y # ys)" by simp
  then show ?case by (rule exI)
qed

lemma jlt_NaN_right [simp]: "jlt x NaN = False"
  by (cases x) simp_all

lemma foldl_jadd_fin:
  "(\<And>y. y \<in> set ys \<Longrightarrow> g (Fin y) = Fin (h y)) \<Longrightarrow>
   foldl (\<lambda>acc v. jadd acc (g v)) (Fin a) (map Fin ys) = Fin (a + sum_list (map h ys))"
  by (induction ys arbitrary: a) (simp_all add: add.assoc)

subsection \<open>Rounding to a double\<close>











lemma round_double_0 [simp]: "round_double 0 = Fin 0"
  by (simp add: round_double_def)

subsection \<open>removeOutliers\<close>

lemma sqrt_1600: "sqrt 1600 = 40"
proof -
  have "sqrt ((40::real)\<^sup>2) = \<bar>40\<bar>" by (rule real_sqrt_abs)
  then show ?thesis by simp
qed

lemma mean_of_fixture: "mean_of [Fin 0, Fin 0, Fin 0, Fin 0, Fin 100] = Fin 20"
  by (simp add: mean_of_def)

lemma std_of_fixture: "std_of [Fin 0, Fin 0, Fin 0, Fin 0, Fin 100] = Fin 40"
  by (simp add: std_of_def mean_of_fixture jpow2_def jsub_def sqrt_1600)

text \<open>
  Claim C1, as stated, fails: on \<open>[0,0,0,0,100]\<close> with threshold 3 the mean is 20 and the
  population standard deviation is 40, so the z-score of 100 is 2, which does not exceed 3.
  The last element of the output is 100, not the mean 20.
\<close>

theorem removeOutliers_fixture_not_replaced:
  "removeOutliers [Fin 0, Fin 0, Fin 0, Fin 0, Fin 100] (Fin 3) ! 4 = Fin 100
   \<and> mean_of [Fin 0, Fin 0, Fin 0, Fin 0, Fin 100] = Fin 20
   \<and> removeOutliers [Fin 0, Fin 0, Fin 0, Fin 0, Fin 100] (Fin 3) ! 4
       \<noteq> mean_of [Fin 0, Fin 0, Fin 0, Fin 0, Fin 100]"
  by (simp add: removeOutliers_def mean_of_fixture std_of_fixture jsub_def jgt_def)

text \<open>
  Claim C1, amended: on \<open>[0,0,0,0,100]\<close> with threshold 3 removeOutliers returns the input
  unchanged (the z-score of 100 is 2, so it is kept), and the output has 5 elements.
\<close>

theorem removeOutliers_fixture_unchanged:
  "removeOutliers [Fin 0, Fin 0, Fin 0, Fin 0, Fin 100] (Fin 3)
     = [Fin 0, Fin 0, Fin 0, Fin 0, Fin 100]
   \<and> length (removeOutliers [Fin 0, Fin 0, Fin 0, Fin 0, Fin 100] (Fin 3)) = 5"
  by (simp add: removeOutliers_def mean_of_fixture std_of_fixture jsub_def jgt_def)

lemma mean_of_fin:
  "mean_of (map Fin ys) = jdiv (Fin (sum_list ys)) (Fin (real (length ys)))"
  using foldl_jadd_fin [of ys "\<lambda>v. v" "\<lambda>y. y" 0] by (simp add: mean_of_def)

lemma mean_of_fin_nonempty:
  "ys \<noteq> [] \<Longrightarrow> mean_of (map Fin ys) = Fin (sum_list ys / real (length ys))"
  by (simp add: mean_of_fin)

lemma std_of_fin_nonempty:
  assumes "ys \<noteq> []"
  shows "std_of (map Fin ys) =
         Fin (sqrt (sum_list (map (\<lambda>y. (y - sum_list ys / real (length ys))\<^sup>2) ys) / real (length ys)))"
proof -
  let ?m = "sum_list ys / real (length ys)"
  have g: "\<And>y. jpow2 (jsub (Fin y) (Fin ?m)) = Fin ((y - ?m)\<^sup>2)"
    by (simp add: jpow2_def jsub_def power2_eq_square)
  have "foldl (\<lambda>acc val. jadd acc (jpow2 (jsub val (Fin ?m)))) (Fin 0) (map Fin ys)
        = Fin (0 + sum_list (map (\<lambda>y. (y - ?m)\<^sup>2) ys))"
    by (rule foldl_jadd_fin) (rule g)
  moreover have "0 \<le> sum_list (map (\<lambda>y. (y - ?m)\<^sup>2) ys) / real (length ys)"
    by (intro divide_nonneg_nonneg sum_list_nonneg) auto
  ultimately show ?thesis using assms
    by (simp add: std_of_def mean_of_fin_nonempty not_less)
qed

lemma sum_list_sq_zero:
  "sum_list (map (\<lambda>y. (y - m)\<^sup>2) ys) = 0 \<Longrightarrow> y \<in> set ys \<Longrightarrow> y = (m::real)"
proof (induction ys)
  case Nil
  then show ?case by simp
next
  case (Cons z zs)
  have nn: "0 \<le> sum_list (map (\<lambda>y. (y - m)\<^sup>2) zs)" by (intro sum_list_nonneg) auto
  from Cons.prems(1) have s: "(z - m)\<^sup>2 + sum_list (map (\<lambda>y. (y - m)\<^sup>2) zs) = 0" by simp
  have z0: "(z - m)\<^sup>2 = 0" and r0: "sum_list (map (\<lambda>y. (y - m)\<^sup>2) zs) = 0"
    using s nn zero_le_power2 [of "z - m"] by linarith+
  show ?case using Cons.IH [OF r0] Cons.prems(2) z0 by auto
qed


text \<open>
  In exact arithmetic a signal of finite samples with standard deviation 0 is returned
  unchanged: every sample equals the mean, so each z-score is \<open>0 / 0\<close>, that is NaN, which
  exceeds no threshold.
\<close>

lemma removeOutliers_exact_zero_std:
  assumes ne: "signal \<noteq> []" and fin: "\<forall>x\<in>set signal. is_fin x"
    and std: "std_of signal = Fin 0"
  shows "removeOutliers signal threshold = signal"
proof -
  from fin obtain ys where ys: "signal = map Fin ys" using all_fin_map by blast
  with ne have ne': "ys \<noteq> []" by auto
  let ?m = "sum_list ys / real (length ys)"
  have "sqrt (sum_list (map (\<lambda>y. (y - ?m)\<^sup>2) ys) / real (length ys)) = 0"
    using std std_of_fin_nonempty [OF ne'] ys by simp
  with ne' have "sum_list (map (\<lambda>y. (y - ?m)\<^sup>2) ys) = 0" by simp
  then have all: "\<And>y. y \<in> set ys \<Longrightarrow> y = ?m" by (rule sum_list_sq_zero)
  have "map (\<lambda>val. let zScore = jabs (jdiv (jsub val (Fin ?m)) (Fin 0))
                   in if jgt zScore threshold then Fin ?m else val) (map Fin ys) = map Fin ys"
    using all by (auto simp: jsub_def jgt_def Let_def)
  then show ?thesis using std ys ne'
    by (simp add: removeOutliers_def mean_of_fin_nonempty del: map_map)
qed


subsection \<open>removeOutliers on a constant signal, in double arithmetic\<close>















subsection \<open>detrend\<close>

lemma detrend_sums_fin:
  "k \<le> length ys \<Longrightarrow>
   detrend_sums (map Fin ys) k =
     (Fin (\<Sum>i<k. real i), Fin (\<Sum>i<k. ys ! i), Fin (\<Sum>i<k. real i * ys ! i),
      Fin (\<Sum>i<k. real i * real i))"
  by (induction k) (simp_all add: nth_js_def)

lemma sum_idx: "(\<Sum>i<n. real i) = real n * (real n - 1) / 2"
  by (induction n) (simp_all add: field_simps)

lemma sum_idx2: "(\<Sum>i<n. real i * real i) = (real n - 1) * real n * (2 * real n - 1) / 6"
  by (induction n) (simp_all add: field_simps)

lemma fit_denominator:
  "real n * (\<Sum>i<n. real i * real i) - (\<Sum>i<n. real i) * (\<Sum>i<n. real i)
     = (real n)\<^sup>2 * (real n - 1) * (real n + 1) / 12"
  by (simp add: sum_idx sum_idx2 field_simps power2_eq_square)

lemma fit_denominator_pos:
  assumes "2 \<le> n"
  shows "0 < real n * (\<Sum>i<n. real i * real i) - (\<Sum>i<n. real i) * (\<Sum>i<n. real i)"
proof -
  from assms have "1 < real n" by simp
  then have "0 < (real n)\<^sup>2 * (real n - 1) * (real n + 1) / 12" by simp
  then show ?thesis by (simp only: fit_denominator)
qed

lemma linear_fit_fin:
  assumes n: "2 \<le> length ys"
  shows "linear_fit (map Fin ys) =
     (let n = real (length ys);
          sx = (\<Sum>i<length ys. real i); sy = (\<Sum>i<length ys. ys ! i);
          sxy = (\<Sum>i<length ys. real i * ys ! i); sx2 = (\<Sum>i<length ys. real i * real i);
          s = (n * sxy - sx * sy) / (n * sx2 - sx * sx)
      in (Fin s, Fin ((sy - s * sx) / n)))"
proof -
  have d: "real (length ys) * (\<Sum>i<length ys. real i * real i)
           - (\<Sum>i<length ys. real i) * (\<Sum>i<length ys. real i) \<noteq> 0"
    using fit_denominator_pos [OF n] by simp
  have n0: "real (length ys) \<noteq> 0" using n by auto
  show ?thesis
    using d n0 by (simp add: linear_fit_def detrend_sums_fin jsub_def Let_def)
qed

lemma detrend_fin:
  assumes n: "2 \<le> length ys"
    and fit: "linear_fit (map Fin ys) = (Fin s, Fin c)"
  shows "detrend (map Fin ys) = map Fin (map (\<lambda>i. ys ! i - (s * real i + c)) [0..<length ys])"
  using n by (auto simp: detrend_def fit nth_js_def jsub_def Let_def)


subsection \<open>detrend in double arithmetic\<close>







subsection \<open>Filter design\<close>

text \<open>
  Claim C2, as stated, fails: \<open>designButterworthFilter\<close> of signalWorker.ts checks
  nothing. With \<open>lowCutoff = 0\<close> it returns the coefficient vectors of order 2.
\<close>

theorem designButterworthFilter_accepts_invalid:
  "designButterworthFilter (Fin 0) (Fin 4) (Fin 30) 2
     = Inr ([Fin (2 / 10), Fin (4 / 10), Fin (2 / 10)], [Fin 1, Fin (- (8 / 10)), Fin (36 / 100)])"
  by (simp add: designButterworthFilter_def new_Array_def set_js_def Let_def eval_nat_numeral)

text \<open>
  Claim C2, amended: \<open>ButterworthFilter.computeCoefficients\<close> fails with the error
  \<open>Invalid filter frequencies\<close>, and so returns no coefficients, for every input with
  finite cutoffs and a finite sampling rate of at least \<open>2^-1021\<close> (so that its half is a
  non-zero double, computed exactly) where \<open>lowCutoff \<le> 0\<close>, or
  \<open>highCutoff \<ge> samplingRate / 2\<close>, or \<open>lowCutoff \<ge> highCutoff\<close>;
  \<open>designButterworthFilter\<close> of signalWorker.ts does not validate its cutoffs and returns
  coefficient vectors, whatever the cutoffs and the sampling rate are, for every order from
  \<open>-1\<close> to \<open>2^32 - 2\<close> (the orders for which the two arrays can be created).
\<close>

theorem filter_designers_validation:
  "(1 / 2 ^ 1021 \<le> fs \<and> (l \<le> 0 \<or> fs / 2 \<le> h \<or> h \<le> l) \<longrightarrow>
      computeCoefficients (Fin fs) (Fin l) (Fin h) ord = Inl (Error ''Invalid filter frequencies''))
   \<and> (0 \<le> ord + 1 \<and> ord + 1 < 2 ^ 32 \<longrightarrow>
        (\<exists>b a. designButterworthFilter lo hi rate ord = Inr (b, a)))"
proof (rule conjI; rule impI)
  assume a: "1 / 2 ^ 1021 \<le> fs \<and> (l \<le> 0 \<or> fs / 2 \<le> h \<or> h \<le> l)"
  have "(0::real) < 1 / 2 ^ 1021" by simp
  with a have "0 < fs \<and> (l \<le> 0 \<or> fs / 2 \<le> h \<or> h \<le> l)" by linarith
  then show "computeCoefficients (Fin fs) (Fin l) (Fin h) ord = Inl (Error ''Invalid filter frequencies'')"
    by (auto simp: computeCoefficients_def jge_def Let_def field_simps)
next
  assume "0 \<le> ord + 1 \<and> ord + 1 < 2 ^ 32"
  then show "\<exists>b a. designButterworthFilter lo hi rate ord = Inr (b, a)"
    by (simp add: designButterworthFilter_def new_Array_def Let_def)
qed

theorem filter_designers_validation_witness:
  "(1::real) / 2 ^ 1021 \<le> 30 \<and> ((0::real) \<le> 0 \<or> (30::real) / 2 \<le> 4 \<or> (4::real) \<le> 0)
   \<and> computeCoefficients (Fin 30) (Fin 0) (Fin 4) 2 = Inl (Error ''Invalid filter frequencies'')
   \<and> (0::int) \<le> 2 + 1 \<and> (2::int) + 1 < 2 ^ 32
   \<and> (\<exists>b a. designButterworthFilter (Fin 0) (Fin 4) (Fin 30) 2 = Inr (b, a))"
  using filter_designers_validation [of 30 0 4 2 "Fin 0" "Fin 4" "Fin 30"] by simp

subsection \<open>Signal-to-noise ratio\<close>

lemma log100: "log 10 (1/100) = -2"
proof -
  have "log 10 (10 powr (-2)) = -2" by simp
  moreover have "(10::real) powr (-2) = 1/100" by (simp add: powr_minus_divide)
  ultimately show ?thesis by simp
qed


text \<open>
  Claim C3, as stated, fails: \<open>calculateSNR\<close> of the JavaScript worker has no floor. With
  signal power 1 and noise power 100 it returns \<open>-20\<close>.
\<close>

theorem calculateSNR_negative:
  "calculateSNR [Fin 1] [Fin 10] = Fin (- 20) \<and> \<not> jge (calculateSNR [Fin 1] [Fin 10]) (Fin 0)"
  by (simp add: calculateSNR_def jgt_def jge_def log100)

lemma foldl_sq_fin:
  "foldl (\<lambda>a b. jadd a (jmul b b)) (Fin a) (map Fin ys) = Fin (a + sum_list (map (\<lambda>y. y * y) ys))"
  using foldl_jadd_fin [of ys "\<lambda>v. jmul v v" "\<lambda>y. y * y" a] by simp

lemma sum_sq_nonneg: "0 \<le> sum_list (map (\<lambda>y. y * y) (ys::real list))"
  by (intro sum_list_nonneg) auto


text \<open>
  Claim C3, amended: for every pair of equal-length non-empty signals of finite samples of
  magnitude at most \<open>10^100\<close> (so that no power overflows in the running program),
  \<open>estimateSNR\<close> of signalWorker.ts returns a finite value that is at least 0: it is
  \<open>10 * log10 (signalPower / (noisePower + 1e-10))\<close> floored at 0 by \<open>Math.max\<close>, and 0 when
  the ratio is 0 and the logarithm is \<open>-Infinity\<close>. (The value is that of exact
  arithmetic.) \<open>calculateSNR\<close> of the JavaScript worker has no such floor.
\<close>

theorem estimateSNR_nonneg:
  assumes ne: "rs \<noteq> []" and len: "length rs = length cs"
    and br: "\<forall>r\<in>set rs. \<bar>r\<bar> \<le> 10 ^ 100" and bc: "\<forall>c\<in>set cs. \<bar>c\<bar> \<le> 10 ^ 100"
  shows "\<exists>v. estimateSNR (map Fin rs) (map Fin cs) = Fin v \<and> 0 \<le> v
     \<and> v = (let signalPower = sum_list (map (\<lambda>c. c * c) cs) / real (length cs);
                noisePower = sum_list (map (\<lambda>i. (rs ! i - cs ! i) * (rs ! i - cs ! i))
                                           [0..<length rs]) / real (length rs);
                ratio = signalPower / (noisePower + 1 / 10 ^ 10)
            in if ratio = 0 then 0 else max 0 (10 * log 10 ratio))"
proof -
  from ne len have n0: "real (length cs) \<noteq> 0" and lrc: "length rs = length cs" by auto
  define ns where "ns = map (\<lambda>i. rs ! i - cs ! i) [0..<length rs]"
  have noise: "map (\<lambda>i. jsub (nth_js (map Fin rs) i) (nth_js (map Fin cs) i))
                 [0..<length (map Fin rs)] = map Fin ns"
    using lrc by (auto simp: ns_def nth_js_def jsub_def)
  have ln: "length ns = length cs" using lrc by (simp add: ns_def)
  define sp where "sp = sum_list (map (\<lambda>y. y * y) cs) / real (length cs)"
  define np where "np = sum_list (map (\<lambda>y. y * y) ns) / real (length cs)"
  have np': "np = sum_list (map (\<lambda>i. (rs ! i - cs ! i) * (rs ! i - cs ! i)) [0..<length rs])
                    / real (length rs)"
    by (simp add: np_def ns_def comp_def lrc)
  have sp0: "0 \<le> sp" unfolding sp_def by (intro divide_nonneg_nonneg sum_sq_nonneg) simp
  have np0: "0 \<le> np" unfolding np_def by (intro divide_nonneg_nonneg sum_sq_nonneg) simp
  have d: "np + 1 / 10 ^ 10 \<noteq> 0" using np0 by (simp add: add_nonneg_eq_0_iff)
  define q where "q = sp / (np + 1 / 10 ^ 10)"
  have q0: "0 \<le> q" unfolding q_def using sp0 np0 by (intro divide_nonneg_nonneg) simp_all
  have e: "estimateSNR (map Fin rs) (map Fin cs) = jmax (Fin 0) (jmul (Fin 10) (jlog10 (Fin q)))"
    using n0 d unfolding estimateSNR_def noise Let_def q_def
    by (simp add: foldl_sq_fin ln sp_def np_def)
  define v where "v = (if q = 0 then 0 else max 0 (10 * log 10 q))"
  have ev: "estimateSNR (map Fin rs) (map Fin cs) = Fin v"
  proof (cases "q = 0")
    case True
    then show ?thesis unfolding e v_def by simp
  next
    case False
    with q0 have "0 < q" by simp
    then show ?thesis unfolding e v_def by (simp add: max_def)
  qed
  have v0: "0 \<le> v" by (simp add: v_def)
  have vq: "v = (let signalPower = sum_list (map (\<lambda>c. c * c) cs) / real (length cs);
                noisePower = sum_list (map (\<lambda>i. (rs ! i - cs ! i) * (rs ! i - cs ! i))
                                           [0..<length rs]) / real (length rs);
                ratio = signalPower / (noisePower + 1 / 10 ^ 10)
            in if ratio = 0 then 0 else max 0 (10 * log 10 ratio))"
    unfolding Let_def np' [symmetric] sp_def [symmetric] q_def [symmetric] v_def ..
  from ev v0 vq show ?thesis by blast
qed

theorem estimateSNR_nonneg_witness:
  "[1, 2 :: real] \<noteq> [] \<and> length [1, 2 :: real] = length [1, 2 :: real]
   \<and> \<bar>1 :: real\<bar> \<le> 10 ^ 100 \<and> \<bar>2 :: real\<bar> \<le> 10 ^ 100
   \<and> (\<exists>v. estimateSNR [Fin 1, Fin 2] [Fin 1, Fin 2] = Fin v \<and> 0 \<le> v)"
proof -
  from estimateSNR_nonneg [of "[1, 2]" "[1, 2]"]
  have "\<exists>v. estimateSNR (map Fin [1, 2]) (map Fin [1, 2]) = Fin v \<and> 0 \<le> v" by auto
  then show ?thesis by simp
qed

subsection \<open>The padded transform of signalWorker.ts\<close>










subsection \<open>The three transforms on the fixture of length 8\<close>

lemma upt_small:
  "[0..<1] = [0::nat]" "[0..<2] = [0, 1::nat]" "[0..<4] = [0, 1, 2, 3::nat]"
  "[0..<8] = [0, 1, 2, 3, 4, 5, 6, 7::nat]"
  by code_simp+

lemma replicate_small:
  "replicate 2 x = [x, x]" "replicate 4 x = [x, x, x, x]"
  "replicate 8 x = [x, x, x, x, x, x, x, x]"
  by (simp_all add: eval_nat_numeral)

lemma length_small:
  "length [a, b] = 2" "length [a, b, c, d] = 4" "length [a, b, c, d, e, f, g, h] = 8"
  by simp_all

lemma fft1: "computeFFT_js [x] = Inr [x]"
  by (subst computeFFT_js.simps) simp

lemma eo2: "every_other 0 [a, b] = [a]" "every_other 1 [a, b] = [b]"
  unfolding every_other_def length_small upt_small by simp_all

lemma eo4: "every_other 0 [a, b, c, d] = [a, c]" "every_other 1 [a, b, c, d] = [b, d]"
  unfolding every_other_def length_small upt_small by simp_all

lemma eo8: "every_other 0 [a, b, c, d, e, f, g, h] = [a, c, e, g]"
  "every_other 1 [a, b, c, d, e, f, g, h] = [b, d, f, h]"
  unfolding every_other_def length_small upt_small by simp_all

lemma fft2: "computeFFT_js [Fin u, Fin v] = Inr [Fin (u + v), Fin (u - v)]"
  apply (subst computeFFT_js.simps)
  unfolding Let_def length_small eo2 fft1
  apply (simp add: upt_small replicate_small set_js_def nth_js_def jsub_def)
  done

lemma fft4_0: "computeFFT_js [Fin 0, Fin 0, Fin 0, Fin 0] = Inr [Fin 0, Fin 0, Fin 0, Fin 0]"
  apply (subst computeFFT_js.simps)
  unfolding Let_def length_small eo4 fft2
  apply (simp add: upt_small replicate_small set_js_def nth_js_def jsub_def)
  done

lemma fft4_1: "computeFFT_js [Fin 1, Fin 0, Fin 1, Fin 0] = Inr [Fin 2, Fin 0, Fin 2, Fin 0]"
  apply (subst computeFFT_js.simps)
  unfolding Let_def length_small eo4 fft2
  apply (simp add: upt_small replicate_small set_js_def nth_js_def jsub_def)
  done

lemma fft8: "computeFFT_js [Fin 1, Fin 0, Fin 0, Fin 0, Fin 1, Fin 0, Fin 0, Fin 0]
   = Inr [Fin 2, Fin 0, Fin 2, Fin 0, Fin 2, Fin 0, Fin 2, Fin 0]"
  apply (subst computeFFT_js.simps)
  unfolding Let_def length_small eo8 fft4_0 fft4_1
  apply (simp add: upt_small replicate_small set_js_def nth_js_def jsub_def)
  done

lemma bin8:
  "fold (\<lambda>t (realPart, imagPart).
        let angle = jdiv (jmul (jmul (jmul (Fin (- 2)) (Fin pi)) (Fin (real k))) (Fin (real t)))
                         (Fin (real (8::nat)))
        in (jadd realPart (jmul (nth_js [Fin 1, Fin 0, Fin 0, Fin 0, Fin 1, Fin 0, Fin 0, Fin 0] t) (jcos angle)),
            jadd imagPart (jmul (nth_js [Fin 1, Fin 0, Fin 0, Fin 0, Fin 1, Fin 0, Fin 0, Fin 0] t) (jsin angle))))
      [0..<8] (Fin 0, Fin 0) = (Fin (1 + (- 1) ^ k), Fin 0)"
  unfolding upt_small by (simp add: nth_js_def)

lemma naiveFFT_fixture:
  "naiveFFT [Fin 1, Fin 0, Fin 0, Fin 0, Fin 1, Fin 0, Fin 0, Fin 0]
     = [Fin (1 / 4), Fin 0, Fin (1 / 4), Fin 0, Fin (1 / 4), Fin 0, Fin (1 / 4), Fin 0]"
  unfolding naiveFFT_def Let_def length_small bin8 [unfolded Let_def] by (simp add: upt_small)

lemma pad_loop_8: "pad_loop 8 1 = 8"
  by (simp add: pad_loop.simps)

lemma padded_fixture:
  "fold (\<lambda>i p. set_js p i (nth_js [Fin 1, Fin 0, Fin 0, Fin 0, Fin 1, Fin 0, Fin 0, Fin 0] i))
        [0..<8] (replicate 8 (Fin 0))
     = [Fin 1, Fin 0, Fin 0, Fin 0, Fin 1, Fin 0, Fin 0, Fin 0]"
  unfolding upt_small replicate_small by (simp add: set_js_def nth_js_def)

lemma fft_bin_fixture:
  "fft_bin [Fin 1, Fin 0, Fin 0, Fin 0, Fin 1, Fin 0, Fin 0, Fin 0] 8 k
     = Fin (sqrt ((1 + (- 1) ^ k) * (1 + (- 1) ^ k)) / 8)"
  unfolding fft_bin_def bin8 by simp

lemma computeFFT_fixture:
  "computeFFT [Fin 1, Fin 0, Fin 0, Fin 0, Fin 1, Fin 0, Fin 0, Fin 0]
     = Inr [Fin (1 / 4), Fin 0, Fin (1 / 4), Fin 0]"
  unfolding computeFFT_def Let_def length_small pad_loop_8 padded_fixture fft_bin_fixture
  by (simp add: upt_small)

text \<open>
  Claim C5: on \<open>[1,0,0,0,1,0,0,0]\<close> the recursive radix-2 path of \<open>computeFFT\<close> in the
  JavaScript worker returns \<open>[2,0,2,0,2,0,2,0]\<close>, the direct summation \<open>naiveFFT\<close> returns
  \<open>[1/4,0,1/4,0,1/4,0,1/4,0]\<close>, and the padded transform of signalWorker.ts returns the
  four bins \<open>[1/4,0,1/4,0]\<close>. The recursive path and the direct path do not match: bin 0 is
  2 on one and 1/4 on the other.
\<close>

theorem fft_paths_on_fixture:
  "computeFFT_js [Fin 1, Fin 0, Fin 0, Fin 0, Fin 1, Fin 0, Fin 0, Fin 0]
     = Inr [Fin 2, Fin 0, Fin 2, Fin 0, Fin 2, Fin 0, Fin 2, Fin 0]
   \<and> naiveFFT [Fin 1, Fin 0, Fin 0, Fin 0, Fin 1, Fin 0, Fin 0, Fin 0]
     = [Fin (1 / 4), Fin 0, Fin (1 / 4), Fin 0, Fin (1 / 4), Fin 0, Fin (1 / 4), Fin 0]
   \<and> computeFFT [Fin 1, Fin 0, Fin 0, Fin 0, Fin 1, Fin 0, Fin 0, Fin 0]
     = Inr [Fin (1 / 4), Fin 0, Fin (1 / 4), Fin 0]
   \<and> computeFFT_js [Fin 1, Fin 0, Fin 0, Fin 0, Fin 1, Fin 0, Fin 0, Fin 0]
     \<noteq> Inr (naiveFFT [Fin 1, Fin 0, Fin 0, Fin 0, Fin 1, Fin 0, Fin 0, Fin 0])"
  by (simp add: fft8 naiveFFT_fixture computeFFT_fixture)

subsection \<open>The pipeline of signalWorker.ts\<close>

lemma is_fin_iff: "is_fin x \<longleftrightarrow> (\<exists>r. x = Fin r)"
  by (cases x) simp_all

lemma is_fin_jadd: "is_fin x \<Longrightarrow> is_fin y \<Longrightarrow> is_fin (jadd x y)"
  by (auto simp: is_fin_iff)

lemma is_fin_jsub: "is_fin x \<Longrightarrow> is_fin y \<Longrightarrow> is_fin (jsub x y)"
  by (auto simp: is_fin_iff jsub_def)

lemma is_fin_jmul: "is_fin x \<Longrightarrow> is_fin y \<Longrightarrow> is_fin (jmul x y)"
  by (auto simp: is_fin_iff)

lemma is_fin_nth_js: "\<forall>x\<in>set xs. is_fin x \<Longrightarrow> i < length xs \<Longrightarrow> is_fin (nth_js xs i)"
  by (simp add: nth_js_def)

text \<open>Each stage keeps finite samples finite and keeps the length: detrend,\<close>

lemma detrend_all_fin:
  assumes "\<forall>x\<in>set signal. is_fin x"
  shows "(\<forall>x\<in>set (detrend signal). is_fin x) \<and> length (detrend signal) = length signal"
proof (cases "length signal < 2")
  case True
  then show ?thesis using assms by (simp add: detrend_def)
next
  case False
  from assms obtain ys where ys: "signal = map Fin ys" using all_fin_map by blast
  with False have n: "2 \<le> length ys" by simp
  obtain s c where fit: "linear_fit (map Fin ys) = (Fin s, Fin c)"
    using linear_fit_fin [OF n] by (simp add: Let_def)
  show ?thesis unfolding ys detrend_fin [OF n fit] by simp
qed

text \<open>removeOutliers,\<close>

lemma removeOutliers_all_fin:
  assumes fin: "\<forall>x\<in>set signal. is_fin x" and ne: "signal \<noteq> []"
  shows "(\<forall>x\<in>set (removeOutliers signal t). is_fin x)
         \<and> length (removeOutliers signal t) = length signal"
proof -
  from fin obtain ys where ys: "signal = map Fin ys" using all_fin_map by blast
  with ne have "ys \<noteq> []" by auto
  then have m: "is_fin (mean_of signal)" by (simp add: ys mean_of_fin_nonempty)
  show ?thesis using fin m by (auto simp: removeOutliers_def Let_def)
qed

text \<open>the coefficients of designButterworthFilter,\<close>

lemma set_js_all_fin:
  "\<forall>x\<in>set xs. is_fin x \<Longrightarrow> is_fin v \<Longrightarrow> i \<le> length xs \<Longrightarrow> \<forall>x\<in>set (set_js xs i v). is_fin x"
  by (auto simp: set_js_def dest: set_update_subset_insert [THEN subsetD])

lemma set_js_length: "i \<le> length xs \<Longrightarrow> length (set_js xs i v) = max (length xs) (Suc i)"
  by (auto simp: set_js_def)

lemma set_js_nth0: "0 < i \<Longrightarrow> nth_js (set_js (set_js xs 0 v) i w) 0 = v"
  by (cases xs) (auto simp: set_js_def nth_js_def nth_append split: nat.splits)

lemma designButterworthFilter_fin:
  assumes "is_fin lo" "is_fin hi" "is_fin fs" "fs \<noteq> Fin 0" "- 1 \<le> ord" "ord + 1 < 2 ^ 32"
  shows "\<exists>b a. designButterworthFilter lo hi fs ord = Inr (b, a)
           \<and> (\<forall>x\<in>set b. is_fin x) \<and> (\<forall>x\<in>set a. is_fin x) \<and> nth_js a 0 = Fin 1"
proof -
  from assms obtain l h f where v: "lo = Fin l" "hi = Fin h" "fs = Fin f" "f \<noteq> 0"
    by (auto simp: is_fin_iff)
  consider "ord = 2" | "ord = 4" | "ord \<noteq> 2" "ord \<noteq> 4" by blast
  then show ?thesis
  proof cases
    case 1
    then show ?thesis
      by (simp add: designButterworthFilter_def new_Array_def Let_def set_js_def nth_js_def
           eval_nat_numeral)
  next
    case 2
    then show ?thesis
      by (simp add: designButterworthFilter_def new_Array_def Let_def set_js_def nth_js_def
           eval_nat_numeral)
  next
    case 3
    define al where "al = 2 * h / f - 2 * l / f"
    define z where "z = replicate (nat (ord + 1)) (Fin 0)"
    have zf: "\<forall>x\<in>set z. is_fin x" by (simp add: z_def)
    have d: "designButterworthFilter lo hi fs ord
             = Inr (set_js (set_js z 0 (Fin al)) 1 (Fin al),
                    set_js (set_js z 0 (Fin 1)) 1 (Fin (- (1 - al))))"
      using 3 assms(5,6) v
      by (simp add: designButterworthFilter_def new_Array_def Let_def jsub_def al_def z_def)
    have l1: "1 \<le> length (set_js z 0 v)" for v by (simp add: set_js_length)
    have b: "\<forall>x\<in>set (set_js (set_js z 0 (Fin al)) 1 (Fin al)). is_fin x"
      by (intro set_js_all_fin zf l1) simp_all
    have a: "\<forall>x\<in>set (set_js (set_js z 0 (Fin 1)) 1 (Fin (- (1 - al)))). is_fin x"
      by (intro set_js_all_fin zf l1) simp_all
    show ?thesis unfolding d using a b by (simp add: set_js_nth0)
  qed
qed


text \<open>applyIIRFilter.\<close>

lemma fold_jadd_is_fin:
  "(\<forall>j\<in>set js. is_fin (g j)) \<Longrightarrow> is_fin y0 \<Longrightarrow> is_fin (fold (\<lambda>j y. jadd y (g j)) js y0)"
  by (induction js arbitrary: y0) (simp_all add: is_fin_jadd)

lemma fold_jsub_is_fin:
  "(\<forall>j\<in>set js. is_fin (g j)) \<Longrightarrow> is_fin y0 \<Longrightarrow> is_fin (fold (\<lambda>j y. jsub y (g j)) js y0)"
  by (induction js arbitrary: y0) (simp_all add: is_fin_jsub)

lemma iir_loop_all_fin:
  assumes fs: "\<forall>x\<in>set signal. is_fin x" and fb: "\<forall>x\<in>set b. is_fin x"
    and fa: "\<forall>x\<in>set a. is_fin x" and a0: "nth_js a 0 = Fin c" "c \<noteq> 0"
  shows "k \<le> length signal \<Longrightarrow>
         (\<forall>x\<in>set (iir_loop signal b a k). is_fin x) \<and> length (iir_loop signal b a k) = k"
proof (induction k)
  case 0
  then show ?case by simp
next
  case (Suc i)
  then have i: "i < length signal" by simp
  define filtered where "filtered = iir_loop signal b a i"
  have ff: "\<forall>x\<in>set filtered. is_fin x" and lf: "length filtered = i"
    using Suc by (simp_all add: filtered_def)
  define y1 where "y1 = fold (\<lambda>j y. jadd y (jmul (nth_js b j) (nth_js signal (i - j))))
                [0..<min (length b) (i + 1)] (Fin 0)"
  define y2 where "y2 = fold (\<lambda>j y. jsub y (jmul (nth_js a j) (nth_js filtered (i - j))))
                [1..<min (length a) (i + 1)] y1"
  have f1: "is_fin y1" unfolding y1_def
  proof (rule fold_jadd_is_fin)
    show "\<forall>j\<in>set [0..<min (length b) (i + 1)]. is_fin (jmul (nth_js b j) (nth_js signal (i - j)))"
      using i fs fb by (auto intro!: is_fin_jmul is_fin_nth_js)
  qed simp
  have f2: "is_fin y2" unfolding y2_def
  proof (rule fold_jsub_is_fin)
    show "\<forall>j\<in>set [1..<min (length a) (i + 1)]. is_fin (jmul (nth_js a j) (nth_js filtered (i - j)))"
      using lf ff fa by (auto intro!: is_fin_jmul is_fin_nth_js)
  qed (rule f1)
  from f2 obtain r where r: "y2 = Fin r" by (auto simp: is_fin_iff)
  have "iir_loop signal b a (Suc i) = filtered @ [jdiv y2 (nth_js a 0)]"
    by (simp add: Let_def filtered_def y1_def y2_def)
  then show ?case using ff lf r a0 by simp
qed

lemma applyIIRFilter_all_fin:
  assumes "\<forall>x\<in>set signal. is_fin x" "\<forall>x\<in>set b. is_fin x" "\<forall>x\<in>set a. is_fin x"
    "nth_js a 0 = Fin c" "c \<noteq> 0"
  shows "(\<forall>x\<in>set (applyIIRFilter signal b a). is_fin x)
         \<and> length (applyIIRFilter signal b a) = length signal"
  unfolding applyIIRFilter_def using iir_loop_all_fin [OF assms, of "length signal"] by simp

text \<open>The normalisation is a min-max scaling.\<close>

lemma foldl_jmin_fin: "foldl jmin (Fin m) (map Fin ys) = Fin (Min (insert m (set ys)))"
proof (induction ys arbitrary: m)
  case Nil
  then show ?case by simp
next
  case (Cons y ys)
  have "jmin (Fin m) (Fin y) = Fin (min m y)" by (simp add: min_def)
  moreover have "Min (insert (min m y) (set ys)) = Min (insert m (set (y # ys)))"
    by (cases "set ys = {}") (simp_all add: min.assoc)
  ultimately show ?case using Cons.IH [of "min m y"] by simp
qed


lemma foldl_jmax_fin: "foldl jmax (Fin m) (map Fin ys) = Fin (Max (insert m (set ys)))"
proof (induction ys arbitrary: m)
  case Nil
  then show ?case by simp
next
  case (Cons y ys)
  have "jmax (Fin m) (Fin y) = Fin (max m y)" by (simp add: max_def)
  moreover have "Max (insert (max m y) (set ys)) = Max (insert m (set (y # ys)))"
    by (cases "set ys = {}") (simp_all add: max.assoc)
  ultimately show ?case using Cons.IH [of "max m y"] by simp
qed

lemma Math_min_fin: "ys \<noteq> [] \<Longrightarrow> Math_min (map Fin ys) = Fin (Min (set ys))"
  by (cases ys) (simp_all add: Math_min_def foldl_jmin_fin)

lemma Math_max_fin: "ys \<noteq> [] \<Longrightarrow> Math_max (map Fin ys) = Fin (Max (set ys))"
  by (cases ys) (simp_all add: Math_max_def foldl_jmax_fin)

lemma normalize255_fin:
  assumes "ys \<noteq> []"
  shows "normalize255 (map Fin ys) =
     map (\<lambda>y. Fin ((y - Min (set ys))
                   / (if Max (set ys) - Min (set ys) = 0 then 1 else Max (set ys) - Min (set ys))
                   * 255)) ys"
proof -
  define mn where "mn = Min (set ys)"
  define mx where "mx = Max (set ys)"
  have mn: "Math_min (map Fin ys) = Fin mn" and mx: "Math_max (map Fin ys) = Fin mx"
    using assms by (simp_all add: Math_min_fin Math_max_fin mn_def mx_def)
  show ?thesis
    unfolding normalize255_def Let_def mn mx mn_def [symmetric] mx_def [symmetric]
    by (simp add: jsub_def)
qed

lemma minmax_scaled_bounds:
  assumes "y \<in> set (ys::real list)"
  shows "0 \<le> (y - Min (set ys))
              / (if Max (set ys) - Min (set ys) = 0 then 1 else Max (set ys) - Min (set ys)) * 255
       \<and> (y - Min (set ys))
              / (if Max (set ys) - Min (set ys) = 0 then 1 else Max (set ys) - Min (set ys)) * 255
          \<le> 255"
proof -
  define mn where "mn = Min (set ys)"
  define mx where "mx = Max (set ys)"
  define rg where "rg = (if mx - mn = 0 then 1 else mx - mn)"
  have lo: "mn \<le> y" and hi: "y \<le> mx" using assms by (simp_all add: mn_def mx_def)
  have rg0: "0 < rg" and le: "y - mn \<le> rg" using lo hi by (auto simp: rg_def)
  have q0: "0 \<le> (y - mn) / rg" using lo rg0 by simp
  have q1: "(y - mn) / rg \<le> 1" using le rg0 by simp
  have a: "0 \<le> (y - mn) / rg * 255" using q0 by (rule mult_nonneg_nonneg) simp
  have "(y - mn) / rg * 255 \<le> 1 * 255" using q1 by (rule mult_right_mono) simp
  then have b: "(y - mn) / rg * 255 \<le> 255" by simp
  from a b show ?thesis unfolding rg_def mn_def mx_def by (rule conjI)
qed

text \<open>
  Claim C8, as stated, fails: a non-empty raw signal is not enough. With the sampling rate
  0 and the order 6 (the first-order fallback) the normalised cutoffs are infinite, the
  coefficient \<open>alpha\<close> is \<open>Infinity - Infinity\<close>, and on the raw signal \<open>[1,2]\<close> every
  element of the cleaned signal is NaN, which is not in \<open>[0, 255]\<close>.
\<close>

theorem processSignal_zero_rate_fixture:
  "map_sum id cleanedSignal
     (processSignal \<lparr>rawSignal = [Fin 1, Fin 2], samplingRate = Fin 0,
        bandpassLow = Fin (1 / 2), bandpassHigh = Fin 4, filterOrder = 6\<rparr>)
     = Inr [NaN, NaN]"
proof -
  have d: "detrend [Fin 1, Fin 2] = [Fin 0, Fin 0]"
    by (simp add: detrend_def linear_fit_def nth_js_def jsub_def Let_def eval_nat_numeral)
  have r: "removeOutliers [Fin 0, Fin 0] (Fin 3) = [Fin 0, Fin 0]"
    by (simp add: removeOutliers_def std_of_def mean_of_def jpow2_def jsub_def jgt_def Let_def)
  have c: "designButterworthFilter (Fin (1 / 2)) (Fin 4) (Fin 0) 6
     = Inr ([NaN, NaN, Fin 0, Fin 0, Fin 0, Fin 0, Fin 0],
            [Fin 1, NaN, Fin 0, Fin 0, Fin 0, Fin 0, Fin 0])"
    by (simp add: designButterworthFilter_def new_Array_def set_js_def Let_def jsub_def
          eval_nat_numeral)
  have f: "applyIIRFilter [Fin 0, Fin 0] [NaN, NaN, Fin 0, Fin 0, Fin 0, Fin 0, Fin 0]
      [Fin 1, NaN, Fin 0, Fin 0, Fin 0, Fin 0, Fin 0] = [NaN, NaN]"
    by (simp add: applyIIRFilter_def nth_js_def jsub_def Let_def eval_nat_numeral)
  have n: "normalize255 [NaN, NaN] = [NaN, NaN]"
    by (simp add: normalize255_def Math_min_def Math_max_def jsub_def Let_def)
  show ?thesis
    unfolding processSignal_def Let_def payload.simps d r c sum.case prod.case f n by simp
qed

text \<open>
  Claim C8, amended: for every payload with a non-empty raw signal of finite samples of
  magnitude at most \<open>10^100\<close>, finite cutoffs and sampling rate with
  \<open>0 < bandpassLow < bandpassHigh < samplingRate / 2\<close>, and an order from \<open>-1\<close> to
  \<open>2^32 - 2\<close>, \<open>processSignal\<close> returns a cleaned signal of the length of the input,
  obtained from the filtered signal by min-max scaling with the range replaced by 1 when
  the filtered signal is constant, and every element is a finite number in \<open>[0, 255]\<close>.
  (The proof, in exact arithmetic, uses of these bounds only that the sampling rate is not
  0 and that the arrays can be created; the others keep the input where the designed
  filter is stable and no intermediate value of the running program overflows.)
\<close>

theorem processSignal_cleaned_bounds:
  assumes raw: "rawSignal p = map Fin rs" and ne0: "rs \<noteq> []"
    and mag: "\<forall>r\<in>set rs. \<bar>r\<bar> \<le> 10 ^ 100"
    and par: "bandpassLow p = Fin lo" "bandpassHigh p = Fin hi" "samplingRate p = Fin fs"
    and band: "0 < lo" "lo < hi" "hi < fs / 2"
    and ord: "- 1 \<le> filterOrder p" "filterOrder p + 1 < 2 ^ 32"
  shows "\<exists>res b a ys. processSignal p = Inr res
     \<and> designButterworthFilter (bandpassLow p) (bandpassHigh p) (samplingRate p) (filterOrder p)
         = Inr (b, a)
     \<and> applyIIRFilter (removeOutliers (detrend (rawSignal p)) (Fin 3)) b a = map Fin ys
     \<and> cleanedSignal res =
         map (\<lambda>y. Fin ((y - Min (set ys))
                   / (if Max (set ys) - Min (set ys) = 0 then 1 else Max (set ys) - Min (set ys))
                   * 255)) ys
     \<and> length (cleanedSignal res) = length (rawSignal p)
     \<and> (\<forall>v\<in>set (cleanedSignal res). \<exists>r. v = Fin r \<and> 0 \<le> r \<and> r \<le> 255)"
proof -
  have ne: "rawSignal p \<noteq> []" using raw ne0 by simp
  have fr: "\<forall>x\<in>set (rawSignal p). is_fin x" using raw by simp
  have fp: "is_fin (bandpassLow p)" "is_fin (bandpassHigh p)" "is_fin (samplingRate p)"
    using par by simp_all
  have fs0: "samplingRate p \<noteq> Fin 0" using par(3) band by simp
  define s1 where "s1 = detrend (rawSignal p)"
  define s2 where "s2 = removeOutliers s1 (Fin 3)"
  have f1: "\<forall>x\<in>set s1. is_fin x" and l1: "length s1 = length (rawSignal p)"
    using detrend_all_fin [OF fr] by (simp_all add: s1_def)
  from l1 ne have ne1: "s1 \<noteq> []" by auto
  have f2: "\<forall>x\<in>set s2. is_fin x" and l2: "length s2 = length (rawSignal p)"
    using removeOutliers_all_fin [OF f1 ne1, of "Fin 3"] l1 by (simp_all add: s2_def)
  obtain b a where d: "designButterworthFilter (bandpassLow p) (bandpassHigh p) (samplingRate p)
        (filterOrder p) = Inr (b, a)"
    and fb: "\<forall>x\<in>set b. is_fin x" and fa: "\<forall>x\<in>set a. is_fin x" and a0: "nth_js a 0 = Fin 1"
    using designButterworthFilter_fin [OF fp fs0 ord] by blast
  have one: "(1::real) \<noteq> 0" by simp
  have f3: "\<forall>x\<in>set (applyIIRFilter s2 b a). is_fin x"
    and l3: "length (applyIIRFilter s2 b a) = length (rawSignal p)"
    using applyIIRFilter_all_fin [OF f2 fb fa a0 one] l2 by simp_all
  from f3 obtain ys where ys: "applyIIRFilter s2 b a = map Fin ys" using all_fin_map by blast
  with l3 ne have lys: "length ys = length (rawSignal p)" and nys: "ys \<noteq> []" by auto
  define cl where "cl = map (\<lambda>y. Fin ((y - Min (set ys))
                   / (if Max (set ys) - Min (set ys) = 0 then 1 else Max (set ys) - Min (set ys))
                   * 255)) ys"
  have n: "normalize255 (applyIIRFilter s2 b a) = cl"
    unfolding ys cl_def by (rule normalize255_fin [OF nys])
  obtain res where res: "processSignal p = Inr res" and c: "cleanedSignal res = cl"
    by (simp add: processSignal_def Let_def d s1_def [symmetric] s2_def [symmetric] n)
  have bnd: "\<forall>v\<in>set cl. \<exists>r. v = Fin r \<and> 0 \<le> r \<and> r \<le> 255"
    unfolding cl_def using minmax_scaled_bounds [of _ ys] by auto
  show ?thesis
    using res d ys c bnd lys unfolding s2_def s1_def cl_def
    by (intro exI [of _ res] exI [of _ b] exI [of _ a] exI [of _ ys]) simp
qed

theorem processSignal_cleaned_bounds_witness:
  "rawSignal \<lparr>rawSignal = [Fin 1, Fin (- 1), Fin (- 1), Fin 1], samplingRate = Fin 30,
       bandpassLow = Fin (1 / 2), bandpassHigh = Fin 4, filterOrder = 2\<rparr>
     = map Fin [1, - 1, - 1, 1]
   \<and> [1, - 1, - 1, 1 :: real] \<noteq> []
   \<and> \<bar>1 :: real\<bar> \<le> 10 ^ 100 \<and> \<bar>- 1 :: real\<bar> \<le> 10 ^ 100
   \<and> (0::real) < 1 / 2 \<and> (1::real) / 2 < 4 \<and> (4::real) < 30 / 2
   \<and> - 1 \<le> (2::int) \<and> (2::int) + 1 < 2 ^ 32
   \<and> (\<exists>res. processSignal \<lparr>rawSignal = [Fin 1, Fin (- 1), Fin (- 1), Fin 1], samplingRate = Fin 30,
       bandpassLow = Fin (1 / 2), bandpassHigh = Fin 4, filterOrder = 2\<rparr> = Inr res
     \<and> length (cleanedSignal res) = 4
     \<and> list_all (\<lambda>v. \<exists>r. v = Fin r \<and> 0 \<le> r \<and> r \<le> 255) (cleanedSignal res))"
  unfolding list_all_iff
  using processSignal_cleaned_bounds [of "\<lparr>rawSignal = [Fin 1, Fin (- 1), Fin (- 1), Fin 1],
       samplingRate = Fin 30, bandpassLow = Fin (1 / 2), bandpassHigh = Fin 4, filterOrder = 2\<rparr>"
       "[1, - 1, - 1, 1]" "1 / 2" 4 30]
  by auto

subsection \<open>Both workers on small inputs\<close>

text \<open>The TypeScript worker on the raw signal \<open>[1,-1,-1,1]\<close> with order 2: the signal has
  no trend and no outlier, so the filter receives it as it is.\<close>

lemma detrend_p0: "detrend [Fin 1, Fin (- 1), Fin (- 1), Fin 1] = [Fin 1, Fin (- 1), Fin (- 1), Fin 1]"
  by (simp add: detrend_def linear_fit_def nth_js_def jsub_def Let_def eval_nat_numeral)

lemma std_p0: "std_of [Fin 1, Fin (- 1), Fin (- 1), Fin 1] = Fin 1"
  by (simp add: std_of_def mean_of_def jpow2_def jsub_def)

lemma removeOutliers_p0:
  "removeOutliers [Fin 1, Fin (- 1), Fin (- 1), Fin 1] (Fin 3) = [Fin 1, Fin (- 1), Fin (- 1), Fin 1]"
  by (simp add: removeOutliers_def std_p0 mean_of_def jsub_def jgt_def Let_def)

lemma design_p0:
  "designButterworthFilter (Fin (1 / 2)) (Fin 4) (Fin 30) 2
     = Inr ([Fin (2 / 10), Fin (4 / 10), Fin (2 / 10)], [Fin 1, Fin (- (8 / 10)), Fin (36 / 100)])"
  by (simp add: designButterworthFilter_def new_Array_def set_js_def Let_def eval_nat_numeral)

lemma iir_p0:
  "applyIIRFilter [Fin 1, Fin (- 1), Fin (- 1), Fin 1]
      [Fin (2 / 10), Fin (4 / 10), Fin (2 / 10)] [Fin 1, Fin (- (8 / 10)), Fin (36 / 100)]
   = [Fin (1 / 5), Fin (9 / 25), Fin (- (23 / 125)), Fin (- (423 / 625))]"
  by (simp add: applyIIRFilter_def nth_js_def jsub_def Let_def eval_nat_numeral)

lemma iir_twice_p0:
  "applyIIRFilter [Fin (1 / 5), Fin (9 / 25), Fin (- (23 / 125)), Fin (- (423 / 625))]
      [Fin (2 / 10), Fin (4 / 10), Fin (2 / 10)] [Fin 1, Fin (- (8 / 10)), Fin (36 / 100)]
   = [Fin (1 / 25), Fin (23 / 125), Fin (7 / 25), Fin (13 / 625)]"
  by (simp add: applyIIRFilter_def nth_js_def jsub_def Let_def eval_nat_numeral)

lemma normalize_once_p0:
  "normalize255 [Fin (1 / 5), Fin (9 / 25), Fin (- (23 / 125)), Fin (- (423 / 625))]
   = [Fin (11645 / 54), Fin 255, Fin (6545 / 54), Fin 0]"
  by (simp add: normalize255_def Math_min_def Math_max_def jsub_def Let_def)

lemma normalize_twice_p0:
  "normalize255 [Fin (1 / 25), Fin (23 / 125), Fin (7 / 25), Fin (13 / 625)]
   = [Fin (170 / 9), Fin (1445 / 9), Fin 255, Fin 0]"
  by (simp add: normalize255_def Math_min_def Math_max_def jsub_def Let_def)



text \<open>The JavaScript worker on the raw signal \<open>[1,0]\<close> sampled at 4 Hz with the band
  0.5 to 1.5 Hz: the normalised band is a quarter to three quarters, the tangent is 1 and
  the coefficients are \<open>b = [1,0,-1]\<close>, \<open>a = [1,0,0]\<close>.\<close>

lemma tan_quarter: "jtan (Fin (pi / 4)) = Fin 1"
  by (simp add: sin_45 cos_45)

lemma coeff_js0:
  "computeCoefficients (Fin 4) (Fin (1 / 2)) (Fin (3 / 2)) 2
   = Inr \<lparr>bf_samplingRate = Fin 4, bf_lowCutoff = Fin (1 / 2), bf_highCutoff = Fin (3 / 2),
          bf_order = 2, bf_b = [Fin 1, Fin 0, Fin (- 1)], bf_a = [Fin 1, Fin 0, Fin 0],
          bf_x = [Fin 0, Fin 0, Fin 0], bf_y = [Fin 0, Fin 0, Fin 0]\<rparr>"
proof -
  have "jtan (jdiv (jmul (Fin pi) (jsub (Fin (3 / 4)) (Fin (1 / 4)))) (Fin 2)) = Fin 1"
    using tan_quarter by (simp add: jsub_def del: jtan.simps)
  then show ?thesis
    by (simp add: computeCoefficients_def Let_def jge_def jsub_def del: jtan.simps)
qed

lemma detrend_js0: "detrend_js [Fin 1, Fin 0] = [Fin 0, Fin (- (1 / 2))]"
  by (simp add: detrend_js_def Let_def jsub_def jpow2_def nth_js_def eval_nat_numeral)

lemma filter_js0:
  "filter_all \<lparr>bf_samplingRate = Fin 4, bf_lowCutoff = Fin (1 / 2), bf_highCutoff = Fin (3 / 2),
          bf_order = 2, bf_b = [Fin 1, Fin 0, Fin (- 1)], bf_a = [Fin 1, Fin 0, Fin 0],
          bf_x = [Fin 0, Fin 0, Fin 0], bf_y = [Fin 0, Fin 0, Fin 0]\<rparr> [Fin 0, Fin (- (1 / 2))]
   = [Fin 0, Fin (- (1 / 2))]"
  by (simp add: filter_step_def Let_def jsub_def nth_js_def set_js_def)

lemma sqrt_sixteenth: "sqrt (1 / 16) = 1 / 4"
proof -
  have "sqrt ((1 / 4)\<^sup>2) = \<bar>1 / 4 :: real\<bar>" by (rule real_sqrt_abs)
  then show ?thesis by (simp add: power2_eq_square)
qed

lemma clip_js0: "clip_outliers [Fin 0, Fin (- (1 / 2))] = ([Fin 0, Fin (- (1 / 2))], Fin (1 / 4))"
  by (simp add: clip_outliers_def Let_def jsub_def jpow2_def jgt_def sqrt_sixteenth)

lemma snr_js0: "calculateSNR [Fin 0, Fin (- (1 / 2))] [Fin 0, Fin (- (1 / 2))] = Fin 0"
  by (simp add: calculateSNR_def Let_def jgt_def)

lemma clipping_js0: "calculateClipping [Fin 1, Fin 0] = Fin 50"
  by (simp add: calculateClipping_def Let_def Math_max_def jge_def)

lemma motion_js0: "calculateMotionArtifacts [Fin 0, Fin (- (1 / 2))] = Fin 0"
  by (simp add: calculateMotionArtifacts_def Let_def jsub_def jpow2_def nth_js_def eval_nat_numeral)

lemma valid_js0: "isValidSegment [Fin 0, Fin (- (1 / 2))] (Fin (1 / 4))"
  by (simp add: isValidSegment_def Let_def jsub_def jgt_def)


subsection \<open>The filter passes of processSignal\<close>

text \<open>
  Claim C7, as stated, fails for \<open>processSignal\<close> of signalWorker.ts: on the raw signal
  \<open>[1,-1,-1,1]\<close> with order 2 its cleaned signal is the normalised output of one pass of
  the filter, which differs from the normalised output of two passes.
\<close>

theorem processSignal_single_pass_fixture:
  "map_sum id cleanedSignal
     (processSignal \<lparr>rawSignal = [Fin 1, Fin (- 1), Fin (- 1), Fin 1], samplingRate = Fin 30,
        bandpassLow = Fin (1 / 2), bandpassHigh = Fin 4, filterOrder = 2\<rparr>)
     = Inr [Fin (11645 / 54), Fin 255, Fin (6545 / 54), Fin 0]
   \<and> normalize255 (applyIIRFilter [Fin 1, Fin (- 1), Fin (- 1), Fin 1]
        [Fin (2 / 10), Fin (4 / 10), Fin (2 / 10)] [Fin 1, Fin (- (8 / 10)), Fin (36 / 100)])
     = [Fin (11645 / 54), Fin 255, Fin (6545 / 54), Fin 0]
   \<and> normalize255 (applyIIRFilter (applyIIRFilter [Fin 1, Fin (- 1), Fin (- 1), Fin 1]
        [Fin (2 / 10), Fin (4 / 10), Fin (2 / 10)] [Fin 1, Fin (- (8 / 10)), Fin (36 / 100)])
        [Fin (2 / 10), Fin (4 / 10), Fin (2 / 10)] [Fin 1, Fin (- (8 / 10)), Fin (36 / 100)])
     = [Fin (170 / 9), Fin (1445 / 9), Fin 255, Fin 0]"
  unfolding processSignal_def Let_def payload.simps detrend_p0 removeOutliers_p0 design_p0
    sum.case prod.case iir_p0 iir_twice_p0 normalize_once_p0 normalize_twice_p0
  by simp


text \<open>
  Claim C7, amended: \<open>processSignal\<close> of the JavaScript worker, when the filter design
  succeeds, applies the designed filter in two successive passes, each from a fresh zero
  state and with the same coefficients (the bandpass output is the first pass, the second
  pass runs on it), then the clip-to-mean outlier pass, and the quality metrics read the
  results of these passes. \<open>processSignal\<close> of signalWorker.ts, when the design succeeds,
  applies the designed filter once, after \<open>detrend\<close> and \<open>removeOutliers\<close>, and normalises
  the result.
\<close>

theorem processSignal_filter_passes:
  "(computeCoefficients fs lo hi ord = Inr flt \<longrightarrow>
      (\<exists>res. processSignal_js sig fs lo hi ord = Inr res
         \<and> bandpass res = filter_all flt (detrend_js sig)
         \<and> butterworth res = fst (clip_outliers (filter_all flt (filter_all flt (detrend_js sig))))
         \<and> snr (qualityMetrics_js res) = calculateSNR (butterworth res) (detrend_js sig)
         \<and> motionArtifactScore (qualityMetrics_js res)
             = calculateMotionArtifacts (filter_all flt (filter_all flt (detrend_js sig)))))
   \<and> (designButterworthFilter (bandpassLow p) (bandpassHigh p) (samplingRate p) (filterOrder p)
         = Inr (b, a) \<longrightarrow>
      (\<exists>res. processSignal p = Inr res
         \<and> cleanedSignal res
             = normalize255 (applyIIRFilter (removeOutliers (detrend (rawSignal p)) (Fin 3)) b a)))"
proof (rule conjI; rule impI)
  assume c: "computeCoefficients fs lo hi ord = Inr flt"
  show "\<exists>res. processSignal_js sig fs lo hi ord = Inr res
         \<and> bandpass res = filter_all flt (detrend_js sig)
         \<and> butterworth res = fst (clip_outliers (filter_all flt (filter_all flt (detrend_js sig))))
         \<and> snr (qualityMetrics_js res) = calculateSNR (butterworth res) (detrend_js sig)
         \<and> motionArtifactScore (qualityMetrics_js res)
             = calculateMotionArtifacts (filter_all flt (filter_all flt (detrend_js sig)))"
    unfolding processSignal_js_def Let_def c sum.case
    by (simp add: case_prod_beta)
next
  assume d: "designButterworthFilter (bandpassLow p) (bandpassHigh p) (samplingRate p)
      (filterOrder p) = Inr (b, a)"
  show "\<exists>res. processSignal p = Inr res
         \<and> cleanedSignal res
             = normalize255 (applyIIRFilter (removeOutliers (detrend (rawSignal p)) (Fin 3)) b a)"
    unfolding processSignal_def Let_def d sum.case prod.case by simp
qed


theorem processSignal_filter_passes_witness:
  "computeCoefficients (Fin 4) (Fin (1 / 2)) (Fin (3 / 2)) 2
     = Inr \<lparr>bf_samplingRate = Fin 4, bf_lowCutoff = Fin (1 / 2), bf_highCutoff = Fin (3 / 2),
          bf_order = 2, bf_b = [Fin 1, Fin 0, Fin (- 1)], bf_a = [Fin 1, Fin 0, Fin 0],
          bf_x = [Fin 0, Fin 0, Fin 0], bf_y = [Fin 0, Fin 0, Fin 0]\<rparr>
   \<and> (\<exists>res. processSignal_js [Fin 1, Fin 0] (Fin 4) (Fin (1 / 2)) (Fin (3 / 2)) 2 = Inr res
         \<and> bandpass res = [Fin 0, Fin (- (1 / 2))]
         \<and> butterworth res = [Fin 0, Fin (- (1 / 2))])
   \<and> designButterworthFilter (Fin (1 / 2)) (Fin 4) (Fin 30) 2
     = Inr ([Fin (2 / 10), Fin (4 / 10), Fin (2 / 10)], [Fin 1, Fin (- (8 / 10)), Fin (36 / 100)])
   \<and> (\<exists>res. processSignal \<lparr>rawSignal = [Fin 1, Fin (- 1), Fin (- 1), Fin 1],
          samplingRate = Fin 30, bandpassLow = Fin (1 / 2), bandpassHigh = Fin 4,
          filterOrder = 2\<rparr> = Inr res
         \<and> cleanedSignal res = [Fin (11645 / 54), Fin 255, Fin (6545 / 54), Fin 0])"
proof -
  let ?flt = "\<lparr>bf_samplingRate = Fin 4, bf_lowCutoff = Fin (1 / 2), bf_highCutoff = Fin (3 / 2),
          bf_order = 2, bf_b = [Fin 1, Fin 0, Fin (- 1)], bf_a = [Fin 1, Fin 0, Fin 0],
          bf_x = [Fin 0, Fin 0, Fin 0], bf_y = [Fin 0, Fin 0, Fin 0]\<rparr>"
  let ?p = "\<lparr>rawSignal = [Fin 1, Fin (- 1), Fin (- 1), Fin 1],
          samplingRate = Fin 30, bandpassLow = Fin (1 / 2), bandpassHigh = Fin 4,
          filterOrder = 2\<rparr>"
  let ?b = "[Fin (2 / 10), Fin (4 / 10), Fin (2 / 10)]"
  let ?a = "[Fin 1, Fin (- (8 / 10)), Fin (36 / 100)]"
  note t = processSignal_filter_passes [of "Fin 4" "Fin (1 / 2)" "Fin (3 / 2)" 2 ?flt
      "[Fin 1, Fin 0]" ?p ?b ?a]
  have d: "designButterworthFilter (bandpassLow ?p) (bandpassHigh ?p) (samplingRate ?p)
      (filterOrder ?p) = Inr (?b, ?a)"
    unfolding payload.simps by (rule design_p0)
  from t coeff_js0 obtain res where
    "processSignal_js [Fin 1, Fin 0] (Fin 4) (Fin (1 / 2)) (Fin (3 / 2)) 2 = Inr res"
    "bandpass res = filter_all ?flt (detrend_js [Fin 1, Fin 0])"
    "butterworth res
       = fst (clip_outliers (filter_all ?flt (filter_all ?flt (detrend_js [Fin 1, Fin 0]))))"
    by blast
  then have js: "\<exists>res. processSignal_js [Fin 1, Fin 0] (Fin 4) (Fin (1 / 2)) (Fin (3 / 2)) 2 = Inr res
         \<and> bandpass res = [Fin 0, Fin (- (1 / 2))]
         \<and> butterworth res = [Fin 0, Fin (- (1 / 2))]"
    unfolding detrend_js0 filter_js0 clip_js0 by simp
  from t d obtain res' where
    "processSignal ?p = Inr res'"
    "cleanedSignal res'
       = normalize255 (applyIIRFilter (removeOutliers (detrend (rawSignal ?p)) (Fin 3)) ?b ?a)"
    by blast
  then have ts: "\<exists>res. processSignal ?p = Inr res
         \<and> cleanedSignal res = [Fin (11645 / 54), Fin 255, Fin (6545 / 54), Fin 0]"
    unfolding payload.simps detrend_p0 removeOutliers_p0 iir_p0 normalize_once_p0 by simp
  from coeff_js0 js design_p0 ts show ?thesis by (intro conjI)
qed


subsection \<open>The validity verdict\<close>

text \<open>
  Claim C4, as stated, fails for the JavaScript worker, whose verdict is
  \<open>isValidSegment\<close> of the filtered signal and its standard deviation: on the raw signal
  \<open>[1,0]\<close> the metrics are snr 0, clipping 50 and motion 0, so the three threshold tests
  do not all hold, and the verdict is true.
\<close>

theorem processSignal_js_verdict_fixture:
  "processSignal_js [Fin 1, Fin 0] (Fin 4) (Fin (1 / 2)) (Fin (3 / 2)) 2
     = Inr \<lparr>raw = [Fin 1, Fin 0], bandpass = [Fin 0, Fin (- (1 / 2))],
            butterworth = [Fin 0, Fin (- (1 / 2))],
            qualityMetrics_js = \<lparr>snr = Fin 0, clippingPercentage = Fin 50,
              motionArtifactScore = Fin 0, validSegment = True\<rparr>\<rparr>
   \<and> \<not> (50 < (5::real) \<and> 0 < (20::real) \<and> (5::real) < 0)"
  unfolding processSignal_js_def Let_def coeff_js0 sum.case detrend_js0 filter_js0 clip_js0
    prod.case snr_js0 clipping_js0 motion_js0
  using valid_js0 by simp



text \<open>
  Claim C4, amended: in signalWorker.ts the verdict on finite metrics is true if and only
  if \<open>clippingPct < 5\<close> and \<open>motionScore < 20\<close> and \<open>snr > 5\<close>; it is true on
  \<open>(2, 5, 10)\<close> and false on \<open>(10, 5, 10)\<close>; and the \<open>validSegment\<close> that \<open>processSignal\<close>
  returns is this verdict on the clipping percentage, the motion score and the
  signal-to-noise ratio that it computed, before they are rounded.
\<close>

theorem validSegment_verdict:
  "(valid_verdict (Fin c) (Fin m) (Fin s) \<longleftrightarrow> c < 5 \<and> m < 20 \<and> 5 < s)
   \<and> valid_verdict (Fin 2) (Fin 5) (Fin 10)
   \<and> \<not> valid_verdict (Fin 10) (Fin 5) (Fin 10)
   \<and> (processSignal p = Inr res \<longrightarrow>
        validSegment (qualityMetrics res)
          = valid_verdict (detectClipping (rawSignal p) (Fin (98 / 100)))
              (assessMotionArtifacts (rawSignal p))
              (estimateSNR (rawSignal p) (cleanedSignal res)))"
proof -
  have "validSegment (qualityMetrics res)
          = valid_verdict (detectClipping (rawSignal p) (Fin (98 / 100)))
              (assessMotionArtifacts (rawSignal p))
              (estimateSNR (rawSignal p) (cleanedSignal res))"
    if "processSignal p = Inr res"
    using that unfolding processSignal_def Let_def
    by (auto split: sum.splits prod.splits)
  then show ?thesis by (simp add: valid_verdict_def jgt_def)
qed

theorem validSegment_verdict_witness:
  "valid_verdict (Fin 2) (Fin 5) (Fin 10) = ((2::real) < 5 \<and> (5::real) < 20 \<and> (5::real) < 10)
   \<and> processSignal \<lparr>rawSignal = [Fin 1, Fin (- 1), Fin (- 1), Fin 1], samplingRate = Fin 30,
          bandpassLow = Fin (1 / 2), bandpassHigh = Fin 4, filterOrder = 2\<rparr>
       = Inr (projr (processSignal \<lparr>rawSignal = [Fin 1, Fin (- 1), Fin (- 1), Fin 1],
          samplingRate = Fin 30, bandpassLow = Fin (1 / 2), bandpassHigh = Fin 4,
          filterOrder = 2\<rparr>))
   \<and> validSegment (qualityMetrics (projr (processSignal \<lparr>rawSignal = [Fin 1, Fin (- 1), Fin (- 1), Fin 1],
          samplingRate = Fin 30, bandpassLow = Fin (1 / 2), bandpassHigh = Fin 4,
          filterOrder = 2\<rparr>)))
       = valid_verdict (detectClipping [Fin 1, Fin (- 1), Fin (- 1), Fin 1] (Fin (98 / 100)))
           (assessMotionArtifacts [Fin 1, Fin (- 1), Fin (- 1), Fin 1])
           (estimateSNR [Fin 1, Fin (- 1), Fin (- 1), Fin 1]
              (cleanedSignal (projr (processSignal \<lparr>rawSignal = [Fin 1, Fin (- 1), Fin (- 1), Fin 1],
                 samplingRate = Fin 30, bandpassLow = Fin (1 / 2), bandpassHigh = Fin 4,
                 filterOrder = 2\<rparr>))))"
proof -
  let ?p = "\<lparr>rawSignal = [Fin 1, Fin (- 1), Fin (- 1), Fin 1], samplingRate = Fin 30,
          bandpassLow = Fin (1 / 2), bandpassHigh = Fin 4, filterOrder = 2\<rparr>"
  have "\<exists>res. processSignal ?p = Inr res"
    unfolding processSignal_def Let_def payload.simps design_p0 sum.case prod.case by simp
  then have r: "processSignal ?p = Inr (projr (processSignal ?p))" by auto
  note t = validSegment_verdict [of 2 5 10 ?p "projr (processSignal ?p)"]
  from t have a: "valid_verdict (Fin 2) (Fin 5) (Fin 10)
      = ((2::real) < 5 \<and> (5::real) < 20 \<and> (5::real) < 10)" by blast
  from t r have b: "validSegment (qualityMetrics (projr (processSignal ?p)))
       = valid_verdict (detectClipping (rawSignal ?p) (Fin (98 / 100)))
           (assessMotionArtifacts (rawSignal ?p))
           (estimateSNR (rawSignal ?p) (cleanedSignal (projr (processSignal ?p))))" by blast
  from a r b show ?thesis unfolding payload.simps by (intro conjI)
qed

end
